theory Spec2Isabelle
  imports Main "HOL-Library.Sublist" "HOL-Library.Multiset"
begin

section \<open>Clipboard history service: data model\<close>

text \<open>
  A shallow embedding of \<^verbatim>\<open>src/vicinae/src/services/clipboard/clipboard-service.cpp\<close>.
  \<^verbatim>\<open>QString\<close> and \<^verbatim>\<open>QByteArray\<close> are both modelled as \<^typ>\<open>string\<close> (a list of
  8-bit characters): every mime type the code compares against is ASCII.
\<close>

record ClipboardDataOffer =
  mimeType :: string
  data :: string

record ClipboardSelection =
  offers :: "ClipboardDataOffer list"
  sourceApp :: "string option"

datatype ClipboardOfferKind = Text | Link | Image | Unknown

datatype ClipboardEncryptionType = None_Encryption | Local

text \<open>What the code reads from a \<^verbatim>\<open>QUrl\<close> parsed in strict mode.\<close>

record QUrl =
  isValid :: bool
  scheme :: string
  host :: string

text \<open>
  The library functions and the constant the service calls but does not define: Qt,
  the crypto helpers and \<^verbatim>\<open>Clipboard::CONCEALED_MIME_TYPE\<close>. They are parameters of the
  model; no theorem below assumes more about them than it states.
\<close>

record library =
  CONCEALED_MIME_TYPE :: string
  md5Hex :: "string \<Rightarrow> string"
  fromEncoded :: "string \<Rightarrow> QUrl"
  toPlainText :: "string \<Rightarrow> string"
  simplified :: "string \<Rightarrow> string"
  imageSize :: "string \<Rightarrow> (nat \<times> nat) option"
  encrypt :: "string \<Rightarrow> string \<Rightarrow> string"

definition startsWith :: "string \<Rightarrow> string \<Rightarrow> bool" where
  "startsWith s p = prefix p s"

section \<open>Kind of a single offer\<close>

definition applicationTexts :: "string list" where
  "applicationTexts =
     map (\<lambda>text. ''application/'' @ text) [''json'', ''xml'', ''javascript'', ''sql'']"

definition getKind :: "library \<Rightarrow> ClipboardDataOffer \<Rightarrow> ClipboardOfferKind" where
  "getKind lib offer =
     (if startsWith (mimeType offer) ''image/'' then Image
      else if startsWith (mimeType offer) ''text/'' then
        (if mimeType offer = ''text/html'' then Text
         else (let url = fromEncoded lib (data offer)
               in if isValid url \<and> scheme url \<noteq> [] then Link else Text))
      else if startsWith (mimeType offer) ''application/''
              \<and> mimeType offer \<in> set applicationTexts then Text
      else Unknown)"

section \<open>Preferred mime type of a stored selection\<close>

datatype SelectionPriority =
  Invalid | Other | HtmlText | TextPriority | GenericImage | ImageJpeg | ImagePng | ImageSvg

fun priorityValue :: "SelectionPriority \<Rightarrow> nat" where
  "priorityValue Invalid = 0"
| "priorityValue Other = 1"
| "priorityValue HtmlText = 2"
| "priorityValue TextPriority = 3"
| "priorityValue GenericImage = 4"
| "priorityValue ImageJpeg = 5"
| "priorityValue ImagePng = 6"
| "priorityValue ImageSvg = 7"

text \<open>The body of the loop that computes \<^verbatim>\<open>mimePriority\<close> for one offer.\<close>

definition mimePriority :: "string \<Rightarrow> SelectionPriority" where
  "mimePriority m =
     (if startsWith m ''text/'' then
        (if m = ''text/plain'' then TextPriority
         else if m = ''text/html'' then HtmlText
         else if m = ''text/svg'' then ImageSvg
         else TextPriority)
      else if m = ''image/jpeg'' then ImageJpeg
      else if m = ''image/png'' then ImagePng
      else if m = ''image/svg+xml'' then ImageSvg
      else Other)"

text \<open>The loop over the offers; the state is \<^verbatim>\<open>(priority, preferredMimeType)\<close>.\<close>

fun preferredLoop :: "ClipboardDataOffer list \<Rightarrow> nat \<times> string \<Rightarrow> nat \<times> string" where
  "preferredLoop [] acc = acc"
| "preferredLoop (offer # rest) (priority, preferredMimeType) =
     (if startsWith (mimeType offer) ''text/_moz_html''
      then preferredLoop rest (priority, preferredMimeType)
      else if priorityValue (mimePriority (mimeType offer)) > priority
      then preferredLoop rest (priorityValue (mimePriority (mimeType offer)), mimeType offer)
      else preferredLoop rest (priority, preferredMimeType))"

definition getSelectionPreferredMimeType :: "ClipboardSelection \<Rightarrow> string" where
  "getSelectionPreferredMimeType selection =
     snd (preferredLoop (offers selection) (priorityValue Invalid, []))"

section \<open>Text preview of an offer\<close>

text \<open>Decimal rendering of a number, as \<^verbatim>\<open>QString::arg\<close> prints an integer.\<close>

fun showNat :: "nat \<Rightarrow> string" where
  "showNat n =
     (if n < 10 then [''0123456789'' ! n]
      else showNat (n div 10) @ [''0123456789'' ! (n mod 10)])"

declare showNat.simps [simp del]

definition getOfferTextPreview :: "library \<Rightarrow> ClipboardDataOffer \<Rightarrow> string" where
  "getOfferTextPreview lib offer =
     (if startsWith (mimeType offer) ''text/'' then take 50 (simplified lib (data offer))
      else if startsWith (mimeType offer) ''image/'' then
        (case imageSize lib (data offer) of
           Some (w, h) \<Rightarrow> ''Image ('' @ showNat w @ ''x'' @ showNat h @ '')''
         | None \<Rightarrow> ''Image'')
      else ''Unnamed'')"

section \<open>Filtering a raw selection\<close>

text \<open>
  \<^verbatim>\<open>std::ranges::unique(selection.offers, sameMimeType)\<close> works in place on the vector and
  its returned range is not used, so the vector keeps its length. The algorithm keeps a
  compacted prefix \<open>kept\<close> (indices up to \<^verbatim>\<open>dest\<close>), a gap behind it and the unread
  rest (from \<^verbatim>\<open>first\<close>). An element whose mime type equals that of the last kept one is
  skipped and joins the gap; any other element is move-assigned to the slot after
  \<open>kept\<close>. Move assignment of \<^verbatim>\<open>QString\<close> and \<^verbatim>\<open>QByteArray\<close> exchanges the two
  values, so the first element of the gap lands in the slot just read.
\<close>

fun uniqueLoop ::
  "ClipboardDataOffer list \<Rightarrow> ClipboardDataOffer list \<Rightarrow> ClipboardDataOffer list
     \<Rightarrow> ClipboardDataOffer list" where
  "uniqueLoop kept gap [] = kept @ gap"
| "uniqueLoop kept gap (x # rest) =
     (if mimeType (last kept) = mimeType x then uniqueLoop kept (gap @ [x]) rest
      else (case gap of
              [] \<Rightarrow> uniqueLoop (kept @ [x]) [] rest
            | g # gap' \<Rightarrow> uniqueLoop (kept @ [x]) (gap' @ [g]) rest))"

definition ranges_unique :: "ClipboardDataOffer list \<Rightarrow> ClipboardDataOffer list" where
  "ranges_unique xs = (case xs of [] \<Rightarrow> [] | x # rest \<Rightarrow> uniqueLoop [x] [] rest)"

text \<open>The two statements that open \<^verbatim>\<open>saveSelection\<close>: \<^verbatim>\<open>erase_if\<close>, then \<^verbatim>\<open>unique\<close>.\<close>

definition filteredOffers :: "ClipboardSelection \<Rightarrow> ClipboardDataOffer list" where
  "filteredOffers selection =
     ranges_unique (filter (\<lambda>offer. data offer \<noteq> []) (offers selection))"

definition isClearSelection :: "ClipboardDataOffer list \<Rightarrow> bool" where
  "isClearSelection os = (foldl (\<lambda>acc item. acc + length (data item)) 0 os = 0)"

section \<open>Choice of the representative offer\<close>

text \<open>
  The block of \<^verbatim>\<open>saveSelection\<close> under the comment ``Prefer text/plain, then image/*,
  then text/html''. The result is \<^verbatim>\<open>(mimeTypeToSave, offerData)\<close>, or \<open>None\<close> where the
  code returns.
\<close>

definition representativeOffer ::
  "library \<Rightarrow> ClipboardDataOffer list \<Rightarrow> (string \<times> string) option" where
  "representativeOffer lib os =
     (let plainIt = find (\<lambda>offer. mimeType offer = ''text/plain'') os;
          imageIt = find (\<lambda>offer. startsWith (mimeType offer) ''image/'') os;
          htmlIt = find (\<lambda>offer. mimeType offer = ''text/html'') os
      in case plainIt of
           Some p \<Rightarrow> Some (''text/plain'', data p)
         | None \<Rightarrow>
             (case imageIt of
                Some i \<Rightarrow> Some (mimeType i, data i)
              | None \<Rightarrow>
                  (case htmlIt of
                     Some h \<Rightarrow> Some (''text/plain'', toPlainText lib (data h))
                   | None \<Rightarrow> None)))"

section \<open>The metadata database and the blob directory\<close>

record InsertSelectionPayload =
  sel_id :: string
  offerCount :: nat
  hash :: string
  preferredMimeType :: string
  kind :: ClipboardOfferKind
  source :: "string option"

record InsertClipboardOfferPayload =
  offer_id :: string
  selectionId :: string
  offer_mimeType :: string
  textPreview :: string
  md5sum :: string
  encryption :: ClipboardEncryptionType
  offer_size :: nat
  urlHost :: "string option"

record ClipboardHistoryEntry =
  entry_id :: string
  pinnedAt :: nat
  updatedAt :: nat
  entry_mimeType :: string
  entry_md5sum :: string
  entry_textPreview :: string

text \<open>
  Modelled from the spec: \<^verbatim>\<open>ClipboardDatabase\<close> (clipboard-db) is not among the
  sources. Its tables are lists of rows in insertion order: the selections, each with
  the time of its last refresh, the offers, and the search index.
\<close>

record ClipboardDatabase =
  selectionRows :: "(InsertSelectionPayload \<times> nat) list"
  offerRows :: "InsertClipboardOfferPayload list"
  searchIndex :: "(string \<times> string) list"

text \<open>
  What one call of \<^verbatim>\<open>saveSelection\<close> draws from outside: the two identifiers made by
  \<^verbatim>\<open>Crypto::UUID::v4\<close>, the clock, and whether each fallible step succeeds.
\<close>

record outcome =
  uuidSelection :: string
  uuidOffer :: string
  now :: nat
  insertSelectionOk :: bool
  indexOk :: bool
  insertOfferOk :: bool
  openOk :: bool

text \<open>
  Modelled from the spec: \<^verbatim>\<open>tryBubbleUpSelection\<close> is missing from the sources. ``If a
  Selection with this hash exists, refresh its recency (bubble-up) and return success.''
\<close>

definition tryBubbleUpSelection ::
  "nat \<Rightarrow> string \<Rightarrow> ClipboardDatabase \<Rightarrow> bool \<times> ClipboardDatabase" where
  "tryBubbleUpSelection t h db =
     (if list_ex (\<lambda>row. hash (fst row) = h) (selectionRows db)
      then (True, db\<lparr>selectionRows :=
              map (\<lambda>row. if hash (fst row) = h then (fst row, t) else row) (selectionRows db)\<rparr>)
      else (False, db))"

text \<open>
  Modelled from the spec: \<^verbatim>\<open>insertSelection\<close> is missing from the sources. It adds the
  Selection row, or fails and adds nothing.
\<close>

definition insertSelection ::
  "outcome \<Rightarrow> InsertSelectionPayload \<Rightarrow> ClipboardDatabase \<Rightarrow> bool \<times> ClipboardDatabase" where
  "insertSelection oc payload db =
     (if insertSelectionOk oc
      then (True, db\<lparr>selectionRows := selectionRows db @ [(payload, now oc)]\<rparr>)
      else (False, db))"

text \<open>
  Modelled from the spec: \<^verbatim>\<open>indexSelectionContent\<close> is missing from the sources. It
  indexes the plain-text content of a selection for search, or fails and adds nothing.
\<close>

definition indexSelectionContent ::
  "outcome \<Rightarrow> string \<Rightarrow> string \<Rightarrow> ClipboardDatabase \<Rightarrow> bool \<times> ClipboardDatabase" where
  "indexSelectionContent oc sid content db =
     (if indexOk oc
      then (True, db\<lparr>searchIndex := searchIndex db @ [(sid, content)]\<rparr>)
      else (False, db))"

text \<open>
  Modelled from the spec: \<^verbatim>\<open>insertOffer\<close> is missing from the sources. It adds the Offer
  row, or fails and adds nothing.
\<close>

definition insertOffer ::
  "outcome \<Rightarrow> InsertClipboardOfferPayload \<Rightarrow> ClipboardDatabase \<Rightarrow> bool \<times> ClipboardDatabase" where
  "insertOffer oc dto db =
     (if insertOfferOk oc
      then (True, db\<lparr>offerRows := offerRows db @ [dto]\<rparr>)
      else (False, db))"

text \<open>
  Modelled from the spec: \<^verbatim>\<open>transaction\<close> is missing from the sources. It runs the
  callback in a single atomic transaction, which commits when the callback returns true
  and is rolled back otherwise. What the callback does outside the database (the
  variables it captures by reference, the files it writes) is not rolled back.
\<close>

definition transaction ::
  "(ClipboardDatabase \<Rightarrow> 'a \<Rightarrow> bool \<times> ClipboardDatabase \<times> 'a) \<Rightarrow> ClipboardDatabase \<Rightarrow> 'a
     \<Rightarrow> bool \<times> ClipboardDatabase \<times> 'a" where
  "transaction fn db outer =
     (case fn db outer of
        (ok, db', outer') \<Rightarrow> if ok then (True, db', outer') else (False, db, outer'))"

text \<open>
  Modelled from the spec: \<^verbatim>\<open>ClipboardDatabase::removeSelection\<close> is missing from the
  sources. It ``deletes the Selection row and all its Offer rows, returning the list of
  Offer identifiers that were removed''.
\<close>

definition db_removeSelection ::
  "string \<Rightarrow> ClipboardDatabase \<Rightarrow> string list \<times> ClipboardDatabase" where
  "db_removeSelection sid db =
     (if list_ex (\<lambda>row. sel_id (fst row) = sid) (selectionRows db)
      then (map offer_id (filter (\<lambda>r. selectionId r = sid) (offerRows db)),
            db\<lparr>selectionRows := filter (\<lambda>row. sel_id (fst row) \<noteq> sid) (selectionRows db),
               offerRows := filter (\<lambda>r. selectionId r \<noteq> sid) (offerRows db),
               searchIndex := filter (\<lambda>e. fst e \<noteq> sid) (searchIndex db)\<rparr>)
      else ([], db))"

text \<open>Modelled from the spec: \<^verbatim>\<open>removeAll\<close> ``clears all metadata''.\<close>

definition db_removeAll :: "bool \<Rightarrow> ClipboardDatabase \<Rightarrow> bool \<times> ClipboardDatabase" where
  "db_removeAll ok db =
     (if ok then (True, \<lparr>selectionRows = [], offerRows = [], searchIndex = []\<rparr>) else (False, db))"

text \<open>
  The directory \<^verbatim>\<open>m_dataDir\<close>: the blob files by name, with their contents. Opening a
  file for writing replaces it; removing a file that does not exist does nothing.
  The service calls the overloads of \<^verbatim>\<open>std::filesystem\<close> that report an error of the
  operating system by throwing, and catches nothing: the exception is the result
  \<open>Inl filesystem_error\<close> of the function it leaves.
\<close>

datatype error = filesystem_error

definition writeFile :: "string \<Rightarrow> string \<Rightarrow> (string \<times> string) list \<Rightarrow> (string \<times> string) list" where
  "writeFile name content files = filter (\<lambda>f. fst f \<noteq> name) files @ [(name, content)]"

definition removeFile :: "string \<Rightarrow> (string \<times> string) list \<Rightarrow> (string \<times> string) list" where
  "removeFile name files = filter (\<lambda>f. fst f \<noteq> name) files"

definition readFile :: "string \<Rightarrow> (string \<times> string) list \<Rightarrow> string option" where
  "readFile name files = map_of files name"

text \<open>
  The loop of \<^verbatim>\<open>removeSelection\<close> over the removed offers. \<open>removeFails\<close> tells for
  which file the operating system refuses the removal: \<^verbatim>\<open>fs::remove\<close> throws there and
  the loop is left, the files removed so far staying removed.
\<close>

fun removeBlobs ::
  "(string \<Rightarrow> bool) \<Rightarrow> string list \<Rightarrow> (string \<times> string) list
     \<Rightarrow> (error + unit) \<times> (string \<times> string) list" where
  "removeBlobs removeFails [] files = (Inr (), files)"
| "removeBlobs removeFails (offer # rest) files =
     (if removeFails offer then (Inl filesystem_error, files)
      else removeBlobs removeFails rest (removeFile offer files))"

section \<open>The service\<close>

datatype signal =
  itemInserted ClipboardHistoryEntry
| selectionRemoved string
| allSelectionsRemoved
| monitoringChanged bool

record ClipboardService =
  m_monitoring :: bool
  m_isEncryptionReady :: bool
  m_localEncryptionKey :: "string option"
  database :: ClipboardDatabase
  m_dataDir :: "(string \<times> string) list"
  emitted :: "signal list"

text \<open>A default-constructed \<^verbatim>\<open>ClipboardHistoryEntry\<close>.\<close>

definition defaultEntry :: ClipboardHistoryEntry where
  "defaultEntry =
     \<lparr>entry_id = [], pinnedAt = 0, updatedAt = 0, entry_mimeType = [], entry_md5sum = [],
      entry_textPreview = []\<rparr>"

text \<open>
  The callback that \<^verbatim>\<open>saveSelection\<close> passes to \<^verbatim>\<open>transaction\<close>. It captures by
  reference the entry to report and writes the blob file: these two are the \<open>outer\<close>
  state. The result of \<^verbatim>\<open>insertOffer\<close> is not looked at.
\<close>

definition saveTransaction ::
  "library \<Rightarrow> outcome \<Rightarrow> string option \<Rightarrow> string option \<Rightarrow> string \<Rightarrow> string \<Rightarrow> string
     \<Rightarrow> ClipboardDatabase \<Rightarrow> (string \<times> string) list \<times> ClipboardHistoryEntry
     \<Rightarrow> bool \<times> ClipboardDatabase \<times> (string \<times> string) list \<times> ClipboardHistoryEntry" where
  "saveTransaction lib oc key src mimeTypeToSave offerData selectionHash db outer =
     (let bubble = tryBubbleUpSelection (now oc) selectionHash db in
      if fst bubble then (True, snd bubble, outer)
      else
        (let selectionId' = uuidSelection oc;
             kind' = getKind lib \<lparr>mimeType = mimeTypeToSave, data = offerData\<rparr>;
             ins = insertSelection oc
                     \<lparr>sel_id = selectionId', offerCount = 1, hash = selectionHash,
                      preferredMimeType = mimeTypeToSave, kind = kind', source = src\<rparr> db
         in if \<not> fst ins then (False, snd ins, outer)
            else
              (let textPreview' =
                     getOfferTextPreview lib \<lparr>mimeType = mimeTypeToSave, data = offerData\<rparr>;
                   idx = (if kind' = Text \<or> kind' = Link
                          then indexSelectionContent oc selectionId' offerData (snd ins)
                          else (True, snd ins))
               in if \<not> fst idx then (False, snd idx, outer)
                  else
                    (let md5sum' = md5Hex lib offerData;
                         offerId = uuidOffer oc;
                         encryption' = (if key \<noteq> None then Local else None_Encryption);
                         dto = \<lparr>offer_id = offerId, selectionId = selectionId',
                                offer_mimeType = mimeTypeToSave, textPreview = textPreview',
                                md5sum = md5sum', encryption = encryption',
                                offer_size = length offerData, urlHost = None\<rparr>;
                         url = fromEncoded lib offerData;
                         dto' = (if kind' = Link \<and> startsWith (scheme url) ''http''
                                 then dto\<lparr>urlHost := Some (host url)\<rparr> else dto);
                         db3 = snd (insertOffer oc dto' (snd idx))
                     in if \<not> openOk oc then (False, db3, outer)
                        else
                          (True, db3,
                           writeFile offerId
                             (case key of
                                Some k \<Rightarrow> encrypt lib offerData k
                              | None \<Rightarrow> offerData)
                             (fst outer),
                           \<lparr>entry_id = selectionId', pinnedAt = 0, updatedAt = 0,
                            entry_mimeType = mimeTypeToSave, entry_md5sum = md5sum',
                            entry_textPreview = textPreview'\<rparr>)))))"

definition saveSelection ::
  "library \<Rightarrow> outcome \<Rightarrow> ClipboardService \<Rightarrow> ClipboardSelection \<Rightarrow> ClipboardService" where
  "saveSelection lib oc s selection =
     (if \<not> m_monitoring s \<or> \<not> m_isEncryptionReady s then s
      else if isClearSelection (filteredOffers selection) then s
      else if list_ex (\<lambda>offer. mimeType offer = CONCEALED_MIME_TYPE lib)
                (filteredOffers selection) then s
      else
        (case representativeOffer lib (filteredOffers selection) of
           None \<Rightarrow> s
         | Some (mimeTypeToSave, offerData) \<Rightarrow>
             (let selectionHash = md5Hex lib offerData;
                  result = transaction
                             (saveTransaction lib oc (m_localEncryptionKey s)
                                (sourceApp selection) mimeTypeToSave offerData selectionHash)
                             (database s) (m_dataDir s, defaultEntry)
              in s\<lparr>database := fst (snd result),
                   m_dataDir := fst (snd (snd result)),
                   emitted := emitted s @ [itemInserted (snd (snd (snd result)))]\<rparr>)))"

text \<open>
  \<^verbatim>\<open>removeSelection\<close>: the rows are deleted first, then the blob files one by one. When
  a removal throws, the function is left with the rows gone, nothing emitted and nothing
  returned.
\<close>

definition removeSelection ::
  "(string \<Rightarrow> bool) \<Rightarrow> ClipboardService \<Rightarrow> string \<Rightarrow> (error + bool) \<times> ClipboardService" where
  "removeSelection removeFails s sid =
     (let removed = db_removeSelection sid (database s);
          blobs = removeBlobs removeFails (fst removed) (m_dataDir s)
      in case fst blobs of
           Inl e \<Rightarrow> (Inl e, s\<lparr>database := snd removed, m_dataDir := snd blobs\<rparr>)
         | Inr _ \<Rightarrow>
             (Inr True,
              s\<lparr>database := snd removed,
                m_dataDir := snd blobs,
                emitted := emitted s @ [selectionRemoved sid]\<rparr>))"

text \<open>
  \<^verbatim>\<open>removeAllSelections\<close>: \<open>fsError\<close> is \<open>None\<close> when \<^verbatim>\<open>fs::remove_all\<close> and
  \<^verbatim>\<open>fs::create_directories\<close> both succeed; otherwise it tells which files were still
  there when one of them threw.
\<close>

definition removeAllSelections ::
  "bool \<Rightarrow> (string \<Rightarrow> bool) option \<Rightarrow> ClipboardService \<Rightarrow> (error + bool) \<times> ClipboardService" where
  "removeAllSelections ok fsError s =
     (let r = db_removeAll ok (database s)
      in if \<not> fst r then (Inr False, s)
         else (case fsError of
                 Some left \<Rightarrow>
                   (Inl filesystem_error,
                    s\<lparr>database := snd r,
                      m_dataDir := filter (\<lambda>f. left (fst f)) (m_dataDir s)\<rparr>)
               | None \<Rightarrow>
                   (Inr True, s\<lparr>database := snd r, m_dataDir := [],
                       emitted := emitted s @ [allSelectionsRemoved]\<rparr>)))"

definition setMonitoring :: "bool \<Rightarrow> ClipboardService \<Rightarrow> ClipboardService" where
  "setMonitoring v s = s\<lparr>m_monitoring := v, emitted := emitted s @ [monitoringChanged v]\<rparr>"

text \<open>
  The callback the constructor attaches to the key lookup: the key is kept when the
  lookup succeeded, and from then on the service knows whether it can encrypt.
\<close>

definition keyResolved :: "string option \<Rightarrow> ClipboardService \<Rightarrow> ClipboardService" where
  "keyResolved res s =
     (case res of
        Some k \<Rightarrow> s\<lparr>m_localEncryptionKey := Some k, m_isEncryptionReady := True\<rparr>
      | None \<Rightarrow> s\<lparr>m_isEncryptionReady := True\<rparr>)"

section \<open>Sequences of operations\<close>

text \<open>The operations of the service that change its state, and a run of them.\<close>

datatype operation =
  SaveSelection outcome ClipboardSelection
| RemoveSelection "string \<Rightarrow> bool" string
| RemoveAllSelections bool "(string \<Rightarrow> bool) option"
| SetMonitoring bool
| KeyResolved "string option"

fun perform :: "library \<Rightarrow> operation \<Rightarrow> ClipboardService \<Rightarrow> ClipboardService" where
  "perform lib (SaveSelection oc selection) s = saveSelection lib oc s selection"
| "perform lib (RemoveSelection removeFails sid) s = snd (removeSelection removeFails s sid)"
| "perform lib (RemoveAllSelections ok fsError) s = snd (removeAllSelections ok fsError s)"
| "perform lib (SetMonitoring v) s = setMonitoring v s"
| "perform lib (KeyResolved res) s = keyResolved res s"

fun usesOfferId :: "string \<Rightarrow> operation \<Rightarrow> bool" where
  "usesOfferId i (SaveSelection oc selection) = (uuidOffer oc = i)"
| "usesOfferId i _ = False"

section \<open>Conditions on a call\<close>

text \<open>
  The capture gets past the early returns of \<^verbatim>\<open>saveSelection\<close>: monitoring is on, the
  key lookup has finished, some offer has bytes and none is marked concealed.
\<close>

definition passesFilters :: "library \<Rightarrow> ClipboardService \<Rightarrow> ClipboardSelection \<Rightarrow> bool" where
  "passesFilters lib s selection =
     (m_monitoring s \<and> m_isEncryptionReady s
      \<and> \<not> isClearSelection (filteredOffers selection)
      \<and> \<not> list_ex (\<lambda>offer. mimeType offer = CONCEALED_MIME_TYPE lib) (filteredOffers selection))"

text \<open>A selection with the content hash \<open>h\<close> is in the database.\<close>

definition hashStored :: "string \<Rightarrow> ClipboardService \<Rightarrow> bool" where
  "hashStored h s = list_ex (\<lambda>row. hash (fst row) = h) (selectionRows (database s))"

text \<open>No other offer row carries the identifier of \<open>r\<close>.\<close>

definition soleOffer :: "InsertClipboardOfferPayload \<Rightarrow> ClipboardService \<Rightarrow> bool" where
  "soleOffer r s = (\<forall>r'\<in>set (offerRows (database s)). offer_id r' = offer_id r \<longrightarrow> r' = r)"

section \<open>The rankings in the words of the specification\<close>

text \<open>
  The ranking of stored selections as the specification words it: Other, then text/html,
  text/plain, a generic image, image/jpeg, image/png, image/svg, and any other text on top.
\<close>

definition claimedRank :: "string \<Rightarrow> nat" where
  "claimedRank m =
     (if m = ''text/html'' then 2
      else if m = ''text/plain'' then 3
      else if m = ''image/jpeg'' then 5
      else if m = ''image/png'' then 6
      else if m = ''image/svg+xml'' then 7
      else if startsWith m ''image/'' then 4
      else if startsWith m ''text/'' then 8
      else 1)"

text \<open>An image type that has no rank of its own.\<close>

definition isGenericImage :: "string \<Rightarrow> bool" where
  "isGenericImage m =
     (startsWith m ''image/'' \<and> m \<noteq> ''image/jpeg'' \<and> m \<noteq> ''image/png''
        \<and> m \<noteq> ''image/svg+xml'')"

text \<open>
  The same ranking with text where the code has it: text/plain and every other text type
  but text/html and text/svg share one rank, below the images; text/svg ranks as svg.
\<close>

definition storedRank :: "string \<Rightarrow> nat" where
  "storedRank m =
     (if m = ''text/html'' then 2
      else if m = ''text/svg'' then 7
      else if startsWith m ''text/'' then 3
      else if m = ''image/jpeg'' then 5
      else if m = ''image/png'' then 6
      else if m = ''image/svg+xml'' then 7
      else 1)"

definition notMoz :: "ClipboardDataOffer \<Rightarrow> bool" where
  "notMoz offer = (\<not> startsWith (mimeType offer) ''text/_moz_html'')"

text \<open>
  The choice of the representative offer as the specification words it: text/plain
  before any image before text/html, the highest rank wins and the first seen of that
  rank is taken; text/html is stored as its plain text; nothing else is stored.
\<close>

definition representativeRank :: "string \<Rightarrow> nat" where
  "representativeRank m =
     (if m = ''text/plain'' then 3
      else if startsWith m ''image/'' then 2
      else if m = ''text/html'' then 1
      else 0)"

definition specRepresentative :: "library \<Rightarrow> ClipboardDataOffer list \<Rightarrow> (string \<times> string) option" where
  "specRepresentative lib os =
     (let best = fold max (map (\<lambda>offer. representativeRank (mimeType offer)) os) 0
      in if best = 0 then None
         else (case find (\<lambda>offer. representativeRank (mimeType offer) = best) os of
                 None \<Rightarrow> None
               | Some w \<Rightarrow>
                   Some (if mimeType w = ''text/html''
                         then (''text/plain'', toPlainText lib (data w))
                         else (mimeType w, data w))))"

section \<open>Sample inputs\<close>

text \<open>
  Stand-ins for the library, for evaluating the model on concrete inputs: the digest is
  the payload itself, a payload that starts with \<^verbatim>\<open>https://\<close> parses as a URL, markup
  is not touched and encryption prepends the key. The concealed mime type is a sample
  value.
\<close>

definition sampleLibrary :: library where
  "sampleLibrary =
     \<lparr>CONCEALED_MIME_TYPE = ''vicinae/concealed'',
      md5Hex = (\<lambda>b. b),
      fromEncoded = (\<lambda>b. if prefix ''https://'' b
                          then \<lparr>isValid = True, scheme = ''https'', host = drop 8 b\<rparr>
                          else \<lparr>isValid = False, scheme = [], host = []\<rparr>),
      toPlainText = (\<lambda>b. b),
      simplified = (\<lambda>b. b),
      imageSize = (\<lambda>b. None),
      encrypt = (\<lambda>b k. k @ b)\<rparr>"

definition sampleService :: ClipboardService where
  "sampleService =
     \<lparr>m_monitoring = True, m_isEncryptionReady = True, m_localEncryptionKey = None,
      database = \<lparr>selectionRows = [], offerRows = [], searchIndex = []\<rparr>,
      m_dataDir = [], emitted = []\<rparr>"

definition sampleOutcome :: outcome where
  "sampleOutcome =
     \<lparr>uuidSelection = ''sel-1'', uuidOffer = ''offer-1'', now = 1, insertSelectionOk = True,
      indexOk = True, insertOfferOk = True, openOk = True\<rparr>"

definition fooSelection :: ClipboardSelection where
  "fooSelection = \<lparr>offers = [\<lparr>mimeType = ''text/plain'', data = ''foo''\<rparr>], sourceApp = None\<rparr>"

definition barSelection :: ClipboardSelection where
  "barSelection = \<lparr>offers = [\<lparr>mimeType = ''text/plain'', data = ''bar''\<rparr>], sourceApp = None\<rparr>"

definition secondOutcome :: outcome where
  "secondOutcome = sampleOutcome\<lparr>uuidSelection := ''sel-2'', uuidOffer := ''offer-2'', now := 2\<rparr>"

section \<open>Properties of the kind and of the preferred mime type\<close>

lemma mimePriority_storedRank: "priorityValue (mimePriority m) = storedRank m"
  by (simp add: mimePriority_def storedRank_def startsWith_def)

lemma preferredLoop_keep:
  "\<forall>y\<in>set (filter notMoz os). storedRank (mimeType y) \<le> p \<Longrightarrow>
   preferredLoop os (p, m) = (p, m)"
  by (induction os arbitrary: p m) (auto simp: notMoz_def mimePriority_storedRank)

lemma preferredLoop_first_max:
  "\<exists>y\<in>set (filter notMoz os). p < storedRank (mimeType y) \<Longrightarrow>
   \<exists>pre w post. filter notMoz os = pre @ w # post
      \<and> preferredLoop os (p, m) = (storedRank (mimeType w), mimeType w)
      \<and> p < storedRank (mimeType w)
      \<and> (\<forall>x\<in>set pre. storedRank (mimeType x) < storedRank (mimeType w))
      \<and> (\<forall>x\<in>set post. storedRank (mimeType x) \<le> storedRank (mimeType w))"
proof (induction os arbitrary: p m)
  case Nil
  then show ?case by simp
next
  case (Cons a os)
  show ?case
  proof (cases "notMoz a")
    case False
    with Cons.prems have "\<exists>y\<in>set (filter notMoz os). p < storedRank (mimeType y)" by simp
    from Cons.IH[OF this, of m] False show ?thesis by (simp add: notMoz_def)
  next
    case True
    let ?r = "storedRank (mimeType a)"
    show ?thesis
    proof (cases "p < ?r")
      case gt: True
      show ?thesis
      proof (cases "\<exists>y\<in>set (filter notMoz os). ?r < storedRank (mimeType y)")
        case True
        from Cons.IH[OF this, of "mimeType a"] obtain pre w post where
          h: "filter notMoz os = pre @ w # post"
             "preferredLoop os (?r, mimeType a) = (storedRank (mimeType w), mimeType w)"
             "?r < storedRank (mimeType w)"
             "\<forall>x\<in>set pre. storedRank (mimeType x) < storedRank (mimeType w)"
             "\<forall>x\<in>set post. storedRank (mimeType x) \<le> storedRank (mimeType w)"
          by blast
        have "filter notMoz (a # os) = (a # pre) @ w # post" using \<open>notMoz a\<close> h(1) by simp
        moreover have "preferredLoop (a # os) (p, m) = (storedRank (mimeType w), mimeType w)"
          using \<open>notMoz a\<close> gt h(2) by (simp add: notMoz_def mimePriority_storedRank)
        moreover have "p < storedRank (mimeType w)" using gt h(3) by simp
        moreover have "\<forall>x\<in>set (a # pre). storedRank (mimeType x) < storedRank (mimeType w)"
          using h(3,4) by simp
        ultimately show ?thesis using h(5) by blast
      next
        case False
        then have "\<forall>y\<in>set (filter notMoz os). storedRank (mimeType y) \<le> ?r" by force
        from preferredLoop_keep[OF this, of "mimeType a"]
        have "preferredLoop (a # os) (p, m) = (?r, mimeType a)"
          using \<open>notMoz a\<close> gt by (simp add: notMoz_def mimePriority_storedRank)
        moreover have "filter notMoz (a # os) = [] @ a # filter notMoz os"
          using \<open>notMoz a\<close> by simp
        moreover have "\<forall>x\<in>set (filter notMoz os). storedRank (mimeType x) \<le> ?r"
          using False by force
        ultimately show ?thesis using gt by (metis empty_iff empty_set)
      qed
    next
      case le: False
      with Cons.prems True have "\<exists>y\<in>set (filter notMoz os). p < storedRank (mimeType y)"
        by auto
      from Cons.IH[OF this, of m] obtain pre w post where
          h: "filter notMoz os = pre @ w # post"
             "preferredLoop os (p, m) = (storedRank (mimeType w), mimeType w)"
             "p < storedRank (mimeType w)"
             "\<forall>x\<in>set pre. storedRank (mimeType x) < storedRank (mimeType w)"
             "\<forall>x\<in>set post. storedRank (mimeType x) \<le> storedRank (mimeType w)"
          by blast
      have "filter notMoz (a # os) = (a # pre) @ w # post" using \<open>notMoz a\<close> h(1) by simp
      moreover have "preferredLoop (a # os) (p, m) = (storedRank (mimeType w), mimeType w)"
        using \<open>notMoz a\<close> le h(2) by (simp add: notMoz_def mimePriority_storedRank)
      moreover have "\<forall>x\<in>set (a # pre). storedRank (mimeType x) < storedRank (mimeType w)"
        using h(3,4) le by simp
      ultimately show ?thesis using h(3,5) by blast
    qed
  qed
qed

text \<open>
  Claim C5, as the specification states it, fails: a text type other than text/plain does
  not outrank the images. Offered text/uri-list and image/png, the code prefers
  image/png, which the stated ranking puts below text/uri-list.
\<close>

theorem preferred_text_below_image_counterexample:
  "getSelectionPreferredMimeType
     \<lparr>offers = [\<lparr>mimeType = ''text/uri-list'', data = ''x''\<rparr>,
                \<lparr>mimeType = ''image/png'', data = ''y''\<rparr>], sourceApp = None\<rparr> = ''image/png''
   \<and> claimedRank ''image/png'' < claimedRank ''text/uri-list''"
  by (simp add: getSelectionPreferredMimeType_def mimePriority_def startsWith_def
      claimedRank_def)

text \<open>
  Claim C5, amended: for every stored selection none of whose offers is a generic image,
  \<^verbatim>\<open>getSelectionPreferredMimeType\<close> returns the mime type of the first offer that is highest
  in the ranking Other < text/html < text (text/plain and every other text type)
  < image/jpeg < image/png < image/svg, the offers whose mime type begins with
  \<^verbatim>\<open>text/_moz_html\<close> being ignored; it returns the empty string when no other offer is
  there.
\<close>

theorem preferredMimeType_first_maximum:
  assumes "\<forall>offer\<in>set (offers selection). \<not> isGenericImage (mimeType offer)"
  shows "(filter notMoz (offers selection) = [] \<longrightarrow>
            getSelectionPreferredMimeType selection = []) \<and>
         (filter notMoz (offers selection) \<noteq> [] \<longrightarrow>
            (\<exists>pre w post. filter notMoz (offers selection) = pre @ w # post
               \<and> getSelectionPreferredMimeType selection = mimeType w
               \<and> (\<forall>x\<in>set pre. storedRank (mimeType x) < storedRank (mimeType w))
               \<and> (\<forall>x\<in>set post. storedRank (mimeType x) \<le> storedRank (mimeType w))))"
proof (intro conjI impI)
  assume "filter notMoz (offers selection) = []"
  then have "\<forall>y\<in>set (filter notMoz (offers selection)). storedRank (mimeType y) \<le> 0"
    by simp
  from preferredLoop_keep[OF this, of "[]"]
  show "getSelectionPreferredMimeType selection = []"
    by (simp add: getSelectionPreferredMimeType_def)
next
  assume "filter notMoz (offers selection) \<noteq> []"
  then obtain y where "y \<in> set (filter notMoz (offers selection))"
    by (cases "filter notMoz (offers selection)") auto
  moreover have "0 < storedRank (mimeType y)" by (simp add: storedRank_def)
  ultimately have "\<exists>y\<in>set (filter notMoz (offers selection)). 0 < storedRank (mimeType y)"
    by blast
  from preferredLoop_first_max[OF this, of "[]"] obtain pre w post where
    h: "filter notMoz (offers selection) = pre @ w # post"
       "preferredLoop (offers selection) (0, []) = (storedRank (mimeType w), mimeType w)"
       "\<forall>x\<in>set pre. storedRank (mimeType x) < storedRank (mimeType w)"
       "\<forall>x\<in>set post. storedRank (mimeType x) \<le> storedRank (mimeType w)"
    by blast
  have "getSelectionPreferredMimeType selection = mimeType w"
    using h(2) by (simp add: getSelectionPreferredMimeType_def)
  with h(1,3,4)
  show "\<exists>pre w post. filter notMoz (offers selection) = pre @ w # post
               \<and> getSelectionPreferredMimeType selection = mimeType w
               \<and> (\<forall>x\<in>set pre. storedRank (mimeType x) < storedRank (mimeType w))
               \<and> (\<forall>x\<in>set post. storedRank (mimeType x) \<le> storedRank (mimeType w))"
    by blast
qed

theorem preferredMimeType_first_maximum_witness:
  "getSelectionPreferredMimeType
     \<lparr>offers = [\<lparr>mimeType = ''text/html'', data = ''<b>x</b>''\<rparr>,
                \<lparr>mimeType = ''image/jpeg'', data = ''b''\<rparr>], sourceApp = None\<rparr> = ''image/jpeg''"
proof -
  let ?html = "\<lparr>mimeType = ''text/html'', data = ''<b>x</b>''\<rparr>"
  let ?jpeg = "\<lparr>mimeType = ''image/jpeg'', data = ''b''\<rparr>"
  let ?sel = "\<lparr>offers = [?html, ?jpeg], sourceApp = None\<rparr>"
  have hyp: "\<forall>offer\<in>set (offers ?sel). \<not> isGenericImage (mimeType offer)"
    by (simp add: isGenericImage_def startsWith_def)
  have flt: "filter notMoz (offers ?sel) = [?html, ?jpeg]"
    by (simp add: notMoz_def startsWith_def)
  from preferredMimeType_first_maximum[OF hyp] flt obtain pre w post where
    h: "[?html, ?jpeg] = pre @ w # post"
       "getSelectionPreferredMimeType ?sel = mimeType w"
       "\<forall>x\<in>set post. storedRank (mimeType x) \<le> storedRank (mimeType w)"
    by auto
  from h(1) have "(w = ?html \<and> post = [?jpeg]) \<or> w = ?jpeg"
    by (auto simp: Cons_eq_append_conv)
  then have "w = ?jpeg"
    using h(3) by (auto simp: storedRank_def startsWith_def)
  with h(2) show ?thesis by simp
qed

text \<open>
  Claim C6: \<^verbatim>\<open>getKind\<close> returns Image for a mime type that starts with image/; for one
  that starts with text/ it returns Text if the type is text/html, and otherwise Link if
  the payload parses as a URL with a non-empty scheme and Text if not; it returns Text
  for application/json, application/xml, application/javascript and application/sql,
  and Unknown for every other mime type.
\<close>

theorem getKind_cases:
  "(startsWith (mimeType offer) ''image/'' \<longrightarrow> getKind lib offer = Image) \<and>
   (mimeType offer = ''text/html'' \<longrightarrow> getKind lib offer = Text) \<and>
   (startsWith (mimeType offer) ''text/'' \<and> mimeType offer \<noteq> ''text/html'' \<longrightarrow>
      getKind lib offer =
        (if isValid (fromEncoded lib (data offer)) \<and> scheme (fromEncoded lib (data offer)) \<noteq> []
         then Link else Text)) \<and>
   (mimeType offer \<in> {''application/json'', ''application/xml'', ''application/javascript'',
        ''application/sql''} \<longrightarrow> getKind lib offer = Text) \<and>
   (\<not> startsWith (mimeType offer) ''image/'' \<and> \<not> startsWith (mimeType offer) ''text/''
      \<and> mimeType offer \<notin> {''application/json'', ''application/xml'', ''application/javascript'',
        ''application/sql''} \<longrightarrow> getKind lib offer = Unknown)"
proof -
  have img: "startsWith (mimeType offer) ''image/'' \<Longrightarrow> getKind lib offer = Image"
    by (simp add: getKind_def)
  have html: "mimeType offer = ''text/html'' \<Longrightarrow> getKind lib offer = Text"
    by (simp add: getKind_def startsWith_def)
  have plain: "startsWith (mimeType offer) ''text/'' \<Longrightarrow> mimeType offer \<noteq> ''text/html'' \<Longrightarrow>
      getKind lib offer =
        (if isValid (fromEncoded lib (data offer)) \<and> scheme (fromEncoded lib (data offer)) \<noteq> []
         then Link else Text)"
    by (auto simp: getKind_def startsWith_def Let_def prefix_def)
  have app: "mimeType offer \<in> {''application/json'', ''application/xml'',
        ''application/javascript'', ''application/sql''} \<Longrightarrow> getKind lib offer = Text"
    by (auto simp: getKind_def startsWith_def applicationTexts_def)
  have unk: "\<not> startsWith (mimeType offer) ''image/'' \<Longrightarrow>
      \<not> startsWith (mimeType offer) ''text/'' \<Longrightarrow>
      mimeType offer \<notin> {''application/json'', ''application/xml'', ''application/javascript'',
        ''application/sql''} \<Longrightarrow> getKind lib offer = Unknown"
    by (auto simp: getKind_def applicationTexts_def)
  from img html plain app unk show ?thesis by blast
qed

theorem getKind_cases_witness:
  "getKind sampleLibrary \<lparr>mimeType = ''image/png'', data = ''x''\<rparr> = Image
   \<and> getKind sampleLibrary \<lparr>mimeType = ''text/html'', data = ''https://a.b''\<rparr> = Text
   \<and> getKind sampleLibrary \<lparr>mimeType = ''text/plain'', data = ''https://a.b''\<rparr> = Link
   \<and> getKind sampleLibrary \<lparr>mimeType = ''text/plain'', data = ''foo''\<rparr> = Text
   \<and> getKind sampleLibrary \<lparr>mimeType = ''application/json'', data = ''{}''\<rparr> = Text
   \<and> getKind sampleLibrary \<lparr>mimeType = ''application/pdf'', data = ''x''\<rparr> = Unknown"
  using getKind_cases[of "\<lparr>mimeType = ''image/png'', data = ''x''\<rparr>" sampleLibrary]
        getKind_cases[of "\<lparr>mimeType = ''text/html'', data = ''https://a.b''\<rparr>" sampleLibrary]
        getKind_cases[of "\<lparr>mimeType = ''text/plain'', data = ''https://a.b''\<rparr>" sampleLibrary]
        getKind_cases[of "\<lparr>mimeType = ''text/plain'', data = ''foo''\<rparr>" sampleLibrary]
        getKind_cases[of "\<lparr>mimeType = ''application/json'', data = ''{}''\<rparr>" sampleLibrary]
        getKind_cases[of "\<lparr>mimeType = ''application/pdf'', data = ''x''\<rparr>" sampleLibrary]
  by (simp add: startsWith_def sampleLibrary_def)

section \<open>Properties of the filter and of the representative offer\<close>

lemma mset_uniqueLoop: "mset (uniqueLoop kept gap rest) = mset kept + mset gap + mset rest"
  by (induction rest arbitrary: kept gap) (auto split: list.splits)

lemma set_ranges_unique: "set (ranges_unique xs) = set xs"
proof -
  have "mset (ranges_unique xs) = mset xs"
    by (cases xs) (simp_all add: ranges_unique_def mset_uniqueLoop)
  then show ?thesis by (rule mset_eq_setD)
qed

lemma length_ranges_unique: "length (ranges_unique xs) = length xs"
proof -
  have "mset (ranges_unique xs) = mset xs"
    by (cases xs) (simp_all add: ranges_unique_def mset_uniqueLoop)
  then show ?thesis by (rule mset_eq_length)
qed

lemma find_append: "find P (xs @ ys) = (case find P xs of None \<Rightarrow> find P ys | Some x \<Rightarrow> Some x)"
  by (induction xs) auto

lemma find_uniqueLoop:
  assumes "\<And>x y. mimeType x = mimeType y \<Longrightarrow> P x = P y"
  shows "kept \<noteq> [] \<Longrightarrow> (\<forall>x\<in>set gap. P x \<longrightarrow> (\<exists>y\<in>set kept. P y)) \<Longrightarrow>
         find P (uniqueLoop kept gap rest) = find P (kept @ rest)"
proof (induction rest arbitrary: kept gap)
  case Nil
  show ?case
  proof (cases "find P kept")
    case None
    then have "\<forall>y\<in>set kept. \<not> P y" by (simp add: find_None_iff)
    with Nil.prems have "\<forall>x\<in>set gap. \<not> P x" by blast
    then have "find P gap = None" by (simp add: find_None_iff)
    with None show ?thesis by (simp add: find_append)
  next
    case (Some a)
    then show ?thesis by (simp add: find_append)
  qed
next
  case (Cons x rest)
  show ?case
  proof (cases "mimeType (last kept) = mimeType x")
    case True
    then have px: "P x = P (last kept)" using assms by metis
    have "\<forall>z\<in>set (gap @ [x]). P z \<longrightarrow> (\<exists>y\<in>set kept. P y)"
      using Cons.prems px last_in_set by auto
    from Cons.IH[OF Cons.prems(1) this]
    have eq: "find P (uniqueLoop kept (gap @ [x]) rest) = find P (kept @ rest)" .
    have "find P (kept @ x # rest) = find P (kept @ rest)"
    proof (cases "P x")
      case True
      with px have "P (last kept)" by simp
      then have "\<exists>y\<in>set kept. P y" using Cons.prems(1) last_in_set by blast
      then have "find P kept \<noteq> None" by (auto simp: find_None_iff)
      then show ?thesis by (auto simp: find_append split: option.splits)
    next
      case False
      then show ?thesis by (simp add: find_append split: option.splits)
    qed
    with eq True show ?thesis by simp
  next
    case False
    show ?thesis
    proof (cases gap)
      case Nil
      have "find P (uniqueLoop (kept @ [x]) [] rest) = find P ((kept @ [x]) @ rest)"
        by (rule Cons.IH) simp_all
      with False Nil show ?thesis by simp
    next
      case (Cons g gap')
      have "\<forall>z\<in>set (gap' @ [g]). P z \<longrightarrow> (\<exists>y\<in>set (kept @ [x]). P y)"
        using Cons.prems(2) Cons by auto
      then have "find P (uniqueLoop (kept @ [x]) (gap' @ [g]) rest) = find P ((kept @ [x]) @ rest)"
        by (intro Cons.IH) simp_all
      with False Cons show ?thesis by simp
    qed
  qed
qed

lemma find_ranges_unique:
  assumes "\<And>x y. mimeType x = mimeType y \<Longrightarrow> P x = P y"
  shows "find P (ranges_unique xs) = find P xs"
proof (cases xs)
  case Nil
  then show ?thesis by (simp add: ranges_unique_def)
next
  case (Cons x rest)
  have "find P (uniqueLoop [x] [] rest) = find P ([x] @ rest)"
    by (rule find_uniqueLoop[OF assms]) simp_all
  with Cons show ?thesis by (simp add: ranges_unique_def)
qed

lemma representativeOffer_ranges_unique:
  "representativeOffer lib (ranges_unique xs) = representativeOffer lib xs"
proof -
  have 1: "find (\<lambda>offer. mimeType offer = ''text/plain'') (ranges_unique xs)
         = find (\<lambda>offer. mimeType offer = ''text/plain'') xs"
    by (rule find_ranges_unique) simp
  have 2: "find (\<lambda>offer. startsWith (mimeType offer) ''image/'') (ranges_unique xs)
         = find (\<lambda>offer. startsWith (mimeType offer) ''image/'') xs"
    by (rule find_ranges_unique) simp
  have 3: "find (\<lambda>offer. mimeType offer = ''text/html'') (ranges_unique xs)
         = find (\<lambda>offer. mimeType offer = ''text/html'') xs"
    by (rule find_ranges_unique) simp
  show ?thesis unfolding representativeOffer_def 1 2 3 ..
qed

lemma foldl_sizes:
  "foldl (\<lambda>acc item. acc + length (data item)) n os = n + sum_list (map (\<lambda>item. length (data item)) os)"
  by (induction os arbitrary: n) auto

lemma isClearSelection_iff: "isClearSelection os \<longleftrightarrow> (\<forall>offer\<in>set os. data offer = [])"
  by (auto simp: isClearSelection_def foldl_sizes)

lemma set_filteredOffers:
  "set (filteredOffers selection) = {offer \<in> set (offers selection). data offer \<noteq> []}"
  by (auto simp: filteredOffers_def set_ranges_unique)

lemma isClear_filteredOffers:
  "isClearSelection (filteredOffers selection) \<longleftrightarrow> (\<forall>offer\<in>set (offers selection). data offer = [])"
  by (auto simp: isClearSelection_iff set_filteredOffers)

lemma fold_max_eq: "fold max (xs::nat list) a = Max (set (a # xs))"
  by (rule Max.set_eq_fold[symmetric])

lemma representativeRank_le: "representativeRank m \<le> 3"
  by (simp add: representativeRank_def)

lemma best_rank:
  fixes os :: "ClipboardDataOffer list"
  assumes "w \<in> set os" and "\<forall>x\<in>set os. representativeRank (mimeType x) \<le> representativeRank (mimeType w)"
  shows "fold max (map (\<lambda>offer. representativeRank (mimeType offer)) os) 0 = representativeRank (mimeType w)"
proof -
  have "Max (set (0 # map (\<lambda>offer. representativeRank (mimeType offer)) os)) = representativeRank (mimeType w)"
    using assms by (intro Max_eqI) auto
  then show ?thesis by (simp only: fold_max_eq)
qed

lemma best_rank_zero:
  fixes os :: "ClipboardDataOffer list"
  assumes "\<forall>x\<in>set os. representativeRank (mimeType x) = 0"
  shows "fold max (map (\<lambda>offer. representativeRank (mimeType offer)) os) 0 = 0"
proof -
  have "Max (set (0 # map (\<lambda>offer. representativeRank (mimeType offer)) os)) = 0"
    using assms by (intro Max_eqI) auto
  then show ?thesis by (simp only: fold_max_eq)
qed

lemma representativeOffer_refines:
  "representativeOffer lib os = specRepresentative lib os"
proof (cases "find (\<lambda>offer. mimeType offer = ''text/plain'') os")
  case (Some p)
  then have p: "p \<in> set os" "mimeType p = ''text/plain''"
    by (auto simp: find_Some_iff)
  have r: "representativeRank (mimeType p) = 3" using p by (simp add: representativeRank_def)
  have best: "fold max (map (\<lambda>offer. representativeRank (mimeType offer)) os) 0 = 3"
    using best_rank[of p os] p r representativeRank_le by simp
  have "find (\<lambda>offer. representativeRank (mimeType offer) = 3) os
      = find (\<lambda>offer. mimeType offer = ''text/plain'') os"
    by (rule find_cong) (auto simp: representativeRank_def)
  with Some best p show ?thesis
    by (simp add: representativeOffer_def specRepresentative_def)
next
  case noPlain: None
  then have np: "\<forall>x\<in>set os. mimeType x \<noteq> ''text/plain''" by (simp add: find_None_iff)
  show ?thesis
  proof (cases "find (\<lambda>offer. startsWith (mimeType offer) ''image/'') os")
    case (Some i)
    then have i: "i \<in> set os" "startsWith (mimeType i) ''image/''"
      by (auto simp: find_Some_iff)
    have ri: "representativeRank (mimeType i) = 2"
      using i np by (simp add: representativeRank_def)
    have "\<forall>x\<in>set os. representativeRank (mimeType x) \<le> 2"
      using np by (simp add: representativeRank_def)
    then have best: "fold max (map (\<lambda>offer. representativeRank (mimeType offer)) os) 0 = 2"
      using best_rank[of i os] i ri by simp
    have "find (\<lambda>offer. representativeRank (mimeType offer) = 2) os
        = find (\<lambda>offer. startsWith (mimeType offer) ''image/'') os"
      using np by (intro find_cong) (auto simp: representativeRank_def)
    moreover have "mimeType i \<noteq> ''text/html''" using i by (auto simp: startsWith_def)
    ultimately show ?thesis using noPlain Some best
      by (simp add: representativeOffer_def specRepresentative_def)
  next
    case noImage: None
    then have ni: "\<forall>x\<in>set os. \<not> startsWith (mimeType x) ''image/''"
      by (simp add: find_None_iff)
    show ?thesis
    proof (cases "find (\<lambda>offer. mimeType offer = ''text/html'') os")
      case (Some h)
      then have h: "h \<in> set os" "mimeType h = ''text/html''"
        by (auto simp: find_Some_iff)
      have rh: "representativeRank (mimeType h) = 1"
        using h by (simp add: representativeRank_def startsWith_def)
      have "\<forall>x\<in>set os. representativeRank (mimeType x) \<le> 1"
        using np ni by (simp add: representativeRank_def)
      then have best: "fold max (map (\<lambda>offer. representativeRank (mimeType offer)) os) 0 = 1"
        using best_rank[of h os] h rh by simp
      have "find (\<lambda>offer. representativeRank (mimeType offer) = 1) os
          = find (\<lambda>offer. mimeType offer = ''text/html'') os"
        using np ni by (intro find_cong) (auto simp: representativeRank_def)
      then show ?thesis using noPlain noImage Some best h
        by (simp add: representativeOffer_def specRepresentative_def)
    next
      case None
      then have "\<forall>x\<in>set os. mimeType x \<noteq> ''text/html''" by (simp add: find_None_iff)
      with np ni have "\<forall>x\<in>set os. representativeRank (mimeType x) = 0"
        by (simp add: representativeRank_def)
      from best_rank_zero[OF this] noPlain noImage None show ?thesis
        by (simp add: representativeOffer_def specRepresentative_def)
    qed
  qed
qed

section \<open>What one call of saveSelection does\<close>

lemma saveSelection_bubble:
  assumes "passesFilters lib s selection"
    and "representativeOffer lib (filteredOffers selection) = Some (m, d)"
    and "hashStored (md5Hex lib d) s"
  shows "saveSelection lib oc s selection =
           s\<lparr>database := snd (tryBubbleUpSelection (now oc) (md5Hex lib d) (database s)),
             m_dataDir := m_dataDir s,
             emitted := emitted s @ [itemInserted defaultEntry]\<rparr>"
  using assms
  by (simp add: saveSelection_def passesFilters_def hashStored_def transaction_def
      saveTransaction_def tryBubbleUpSelection_def Let_def)

lemma saveSelection_insert_failed:
  assumes "passesFilters lib s selection"
    and "representativeOffer lib (filteredOffers selection) = Some (m, d)"
    and "\<not> hashStored (md5Hex lib d) s"
    and "\<not> insertSelectionOk oc"
  shows "saveSelection lib oc s selection =
           s\<lparr>database := database s, m_dataDir := m_dataDir s,
             emitted := emitted s @ [itemInserted defaultEntry]\<rparr>"
  using assms
  by (simp add: saveSelection_def passesFilters_def hashStored_def transaction_def
      saveTransaction_def tryBubbleUpSelection_def insertSelection_def Let_def)

lemma saveSelection_inserted:
  assumes "passesFilters lib s selection"
    and "representativeOffer lib (filteredOffers selection) = Some (m, d)"
    and "\<not> hashStored (md5Hex lib d) s"
    and "insertSelectionOk oc" and "indexOk oc" and "openOk oc"
  shows "map (\<lambda>row. sel_id (fst row)) (selectionRows (database (saveSelection lib oc s selection)))
           = map (\<lambda>row. sel_id (fst row)) (selectionRows (database s)) @ [uuidSelection oc]"
    and "m_dataDir (saveSelection lib oc s selection)
           = writeFile (uuidOffer oc)
               (case m_localEncryptionKey s of Some k \<Rightarrow> encrypt lib d k | None \<Rightarrow> d)
               (m_dataDir s)"
    and "\<not> insertOfferOk oc \<Longrightarrow>
           offerRows (database (saveSelection lib oc s selection)) = offerRows (database s)"
    and "insertOfferOk oc \<Longrightarrow>
           \<exists>row. offerRows (database (saveSelection lib oc s selection)) = offerRows (database s) @ [row]
             \<and> offer_id row = uuidOffer oc \<and> offer_mimeType row = m
             \<and> encryption row = (if m_localEncryptionKey s = None then None_Encryption else Local)"
  using assms
  by (simp_all add: saveSelection_def passesFilters_def hashStored_def transaction_def
      saveTransaction_def tryBubbleUpSelection_def insertSelection_def
      indexSelectionContent_def insertOffer_def Let_def)

lemma readFile_writeFile: "readFile name (writeFile name content files) = Some content"
  by (induction files) (auto simp: readFile_def writeFile_def)

lemma readFile_writeFile_other:
  "name' \<noteq> name \<Longrightarrow> readFile name' (writeFile name content files) = readFile name' files"
  by (induction files) (auto simp: readFile_def writeFile_def)

lemma saveSelection_flags:
  "m_monitoring (saveSelection lib oc s selection) = m_monitoring s"
  "m_isEncryptionReady (saveSelection lib oc s selection) = m_isEncryptionReady s"
  "m_localEncryptionKey (saveSelection lib oc s selection) = m_localEncryptionKey s"
  by (simp_all add: saveSelection_def Let_def split: option.splits prod.splits)

lemma passesFilters_saveSelection:
  "passesFilters lib (saveSelection lib' oc s selection') selection = passesFilters lib s selection"
  by (simp add: passesFilters_def saveSelection_flags)

lemma saveSelection_key_pending:
  "\<not> m_isEncryptionReady s \<Longrightarrow> saveSelection lib oc s selection = s"
  by (simp add: saveSelection_def)

lemma saveSelection_no_representative:
  "representativeOffer lib (filteredOffers selection) = None \<Longrightarrow> saveSelection lib oc s selection = s"
  by (simp add: saveSelection_def)

lemma clear_selection_skipped:
  "\<forall>offer\<in>set (offers selection). data offer = [] \<Longrightarrow>
   saveSelection lib oc s selection = s"
  by (simp add: saveSelection_def isClear_filteredOffers)

lemma saveSelection_selection_row:
  assumes "passesFilters lib s selection"
    and "representativeOffer lib (filteredOffers selection) = Some (m, d)"
    and "\<not> hashStored (md5Hex lib d) s"
    and "insertSelectionOk oc" and "indexOk oc" and "openOk oc"
  shows "\<exists>payload. selectionRows (database (saveSelection lib oc s selection))
             = selectionRows (database s) @ [(payload, now oc)]
           \<and> hash payload = md5Hex lib d \<and> sel_id payload = uuidSelection oc
           \<and> preferredMimeType payload = m
           \<and> kind payload = getKind lib \<lparr>mimeType = m, data = d\<rparr>"
  using assms
  by (simp add: saveSelection_def passesFilters_def hashStored_def transaction_def
      saveTransaction_def tryBubbleUpSelection_def insertSelection_def
      indexSelectionContent_def insertOffer_def Let_def)

lemma saveSelection_entry:
  assumes "passesFilters lib s selection"
    and "representativeOffer lib (filteredOffers selection) = Some (m, d)"
    and "\<not> hashStored (md5Hex lib d) s"
    and "insertSelectionOk oc" and "indexOk oc" and "openOk oc"
  shows "emitted (saveSelection lib oc s selection) = emitted s @
           [itemInserted \<lparr>entry_id = uuidSelection oc, pinnedAt = 0, updatedAt = 0,
              entry_mimeType = m, entry_md5sum = md5Hex lib d,
              entry_textPreview = getOfferTextPreview lib \<lparr>mimeType = m, data = d\<rparr>\<rparr>]"
  using assms
  by (simp add: saveSelection_def passesFilters_def hashStored_def transaction_def
      saveTransaction_def tryBubbleUpSelection_def insertSelection_def
      indexSelectionContent_def insertOffer_def Let_def)

lemma example_representative:
  "representativeOffer lib (filteredOffers
      \<lparr>offers = [\<lparr>mimeType = ''text/plain'', data = ''foo''\<rparr>,
                 \<lparr>mimeType = ''image/png'', data = bytes\<rparr>], sourceApp = src\<rparr>)
    = Some (''text/plain'', ''foo'')"
  by (simp add: filteredOffers_def representativeOffer_ranges_unique)
     (simp add: representativeOffer_def)

lemma transaction_offerRows:
  "offerRows (fst (snd (transaction (saveTransaction lib oc key src m d h) db outer))) = offerRows db
   \<or> (\<exists>row. offerRows (fst (snd (transaction (saveTransaction lib oc key src m d h) db outer)))
               = offerRows db @ [row] \<and> offer_id row = uuidOffer oc)"
  by (simp add: transaction_def saveTransaction_def tryBubbleUpSelection_def insertSelection_def
      indexSelectionContent_def insertOffer_def Let_def)

lemma transaction_files:
  "fst (snd (snd (transaction (saveTransaction lib oc key src m d h) db outer))) = fst outer
   \<or> (\<exists>c. fst (snd (snd (transaction (saveTransaction lib oc key src m d h) db outer)))
               = writeFile (uuidOffer oc) c (fst outer))"
  by (auto simp: transaction_def saveTransaction_def tryBubbleUpSelection_def insertSelection_def
      indexSelectionContent_def insertOffer_def Let_def)

lemma saveSelection_offerRows_cases:
  "offerRows (database (saveSelection lib oc s selection)) = offerRows (database s)
   \<or> (\<exists>row. offerRows (database (saveSelection lib oc s selection)) = offerRows (database s) @ [row]
          \<and> offer_id row = uuidOffer oc)"
  using transaction_offerRows
  by (simp add: saveSelection_def Let_def split: option.splits prod.splits)

lemma saveSelection_files_cases:
  "m_dataDir (saveSelection lib oc s selection) = m_dataDir s
   \<or> (\<exists>c. m_dataDir (saveSelection lib oc s selection) = writeFile (uuidOffer oc) c (m_dataDir s))"
proof -
  have "fst (snd (snd (transaction (saveTransaction lib oc key src m d h) db (m_dataDir s, e)))) = m_dataDir s
   \<or> (\<exists>c. fst (snd (snd (transaction (saveTransaction lib oc key src m d h) db (m_dataDir s, e))))
               = writeFile (uuidOffer oc) c (m_dataDir s))" for key src m d h db e
    using transaction_files[of lib oc key src m d h db "(m_dataDir s, e)"] by simp
  then show ?thesis
    by (simp add: saveSelection_def Let_def split: option.splits prod.splits)
qed

lemma readFile_filter:
  "name \<notin> S \<Longrightarrow> readFile name (filter (\<lambda>f. fst f \<notin> S) files) = readFile name files"
  by (induction files) (auto simp: readFile_def)

section \<open>Evaluating the model on the sample inputs\<close>

lemmas sample_defs = sampleLibrary_def sampleService_def sampleOutcome_def
lemmas save_defs = saveSelection_def filteredOffers_def ranges_unique_def isClearSelection_def
  representativeOffer_def transaction_def saveTransaction_def tryBubbleUpSelection_def
  insertSelection_def indexSelectionContent_def insertOffer_def getKind_def
  getOfferTextPreview_def startsWith_def writeFile_def readFile_def defaultEntry_def Let_def

lemma foo_passes: "passesFilters sampleLibrary sampleService fooSelection"
  by (simp add: passesFilters_def filteredOffers_def ranges_unique_def isClearSelection_def
      fooSelection_def sample_defs)

lemma foo_representative:
  "representativeOffer sampleLibrary (filteredOffers fooSelection) = Some (''text/plain'', ''foo'')"
  by (simp add: filteredOffers_def ranges_unique_def representativeOffer_def fooSelection_def)

lemma foo_not_stored: "\<not> hashStored (md5Hex sampleLibrary ''foo'') sampleService"
  by (simp add: hashStored_def sample_defs)

lemma sampleOutcome_ok:
  "insertSelectionOk sampleOutcome" "indexOk sampleOutcome" "insertOfferOk sampleOutcome"
  "openOk sampleOutcome"
  by (simp_all add: sampleOutcome_def)

lemma foo_saved:
  "saveSelection sampleLibrary sampleOutcome sampleService fooSelection =
     \<lparr>m_monitoring = True, m_isEncryptionReady = True, m_localEncryptionKey = None,
      database =
        \<lparr>selectionRows =
           [(\<lparr>sel_id = ''sel-1'', offerCount = 1, hash = ''foo'',
              preferredMimeType = ''text/plain'', kind = Text, source = None\<rparr>, 1)],
         offerRows =
           [\<lparr>offer_id = ''offer-1'', selectionId = ''sel-1'', offer_mimeType = ''text/plain'',
             textPreview = ''foo'', md5sum = ''foo'', encryption = None_Encryption,
             offer_size = 3, urlHost = None\<rparr>],
         searchIndex = [(''sel-1'', ''foo'')]\<rparr>,
      m_dataDir = [(''offer-1'', ''foo'')],
      emitted =
        [itemInserted \<lparr>entry_id = ''sel-1'', pinnedAt = 0, updatedAt = 0,
           entry_mimeType = ''text/plain'', entry_md5sum = ''foo'',
           entry_textPreview = ''foo''\<rparr>]\<rparr>"
  by (simp add: save_defs sample_defs fooSelection_def)

section \<open>Removal and later operations\<close>

lemma fold_removeFile:
  "fold removeFile names files = filter (\<lambda>f. fst f \<notin> set names) files"
  by (induction names arbitrary: files) (auto simp: removeFile_def intro: filter_cong)

lemma removeBlobs_no_failure:
  "\<forall>name\<in>set names. \<not> removeFails name \<Longrightarrow>
   removeBlobs removeFails names files = (Inr (), fold removeFile names files)"
  by (induction names arbitrary: files) simp_all

lemma removeBlobs_failure:
  "\<exists>name\<in>set names. removeFails name \<Longrightarrow>
   fst (removeBlobs removeFails names files) = Inl filesystem_error"
  by (induction names arbitrary: files) auto

lemma readFile_removeFile_other:
  "name' \<noteq> name \<Longrightarrow> readFile name' (removeFile name files) = readFile name' files"
  by (induction files) (auto simp: readFile_def removeFile_def)

lemma readFile_removeBlobs:
  "name \<notin> set names \<Longrightarrow>
   readFile name (snd (removeBlobs removeFails names files)) = readFile name files"
  by (induction names arbitrary: files) (auto simp: readFile_removeFile_other)

lemma perform_preserves_offer:
  assumes "soleOffer r s" and "\<not> usesOfferId (offer_id r) op"
  shows "soleOffer r (perform lib op s)"
    and "r \<in> set (offerRows (database (perform lib op s))) \<Longrightarrow>
           r \<in> set (offerRows (database s))
           \<and> readFile (offer_id r) (m_dataDir (perform lib op s)) = readFile (offer_id r) (m_dataDir s)"
proof -
  have "soleOffer r (perform lib op s) \<and>
     (r \<in> set (offerRows (database (perform lib op s))) \<longrightarrow>
           r \<in> set (offerRows (database s))
           \<and> readFile (offer_id r) (m_dataDir (perform lib op s)) = readFile (offer_id r) (m_dataDir s))"
  proof (cases op)
    case (SaveSelection oc selection)
    with assms(2) have ne: "uuidOffer oc \<noteq> offer_id r" by simp
    have rows: "set (offerRows (database (saveSelection lib oc s selection))) \<subseteq> set (offerRows (database s))
        \<or> (\<exists>row. set (offerRows (database (saveSelection lib oc s selection)))
               = insert row (set (offerRows (database s))) \<and> offer_id row = uuidOffer oc)"
      using saveSelection_offerRows_cases[of lib oc s selection] by auto
    have files: "readFile (offer_id r) (m_dataDir (saveSelection lib oc s selection))
        = readFile (offer_id r) (m_dataDir s)"
      using saveSelection_files_cases[of lib oc s selection] ne
      by (auto simp: readFile_writeFile_other)
    from rows files assms(1) ne SaveSelection show ?thesis
      by (auto simp: soleOffer_def)
  next
    case (RemoveSelection removeFails sid)
    show ?thesis
    proof (cases "list_ex (\<lambda>row. sel_id (fst row) = sid) (selectionRows (database s))")
      case False
      with RemoveSelection assms(1) show ?thesis
        by (simp add: removeSelection_def db_removeSelection_def soleOffer_def Let_def)
    next
      case True
      have rows: "offerRows (database (perform lib op s))
          = filter (\<lambda>r. selectionId r \<noteq> sid) (offerRows (database s))"
        using True RemoveSelection
        by (simp add: removeSelection_def db_removeSelection_def Let_def split: sum.splits)
      have files: "m_dataDir (perform lib op s)
          = snd (removeBlobs removeFails
                  (map offer_id (filter (\<lambda>r. selectionId r = sid) (offerRows (database s))))
                  (m_dataDir s))"
        using True RemoveSelection
        by (simp add: removeSelection_def db_removeSelection_def Let_def split: sum.splits)
      have "readFile (offer_id r) (m_dataDir (perform lib op s)) = readFile (offer_id r) (m_dataDir s)"
        if "r \<in> set (offerRows (database (perform lib op s)))"
      proof -
        from that rows have "selectionId r \<noteq> sid" by simp
        with assms(1) have "offer_id r \<notin> set (map offer_id
            (filter (\<lambda>r. selectionId r = sid) (offerRows (database s))))"
          by (auto simp: soleOffer_def)
        then show ?thesis unfolding files by (rule readFile_removeBlobs)
      qed
      with rows assms(1) show ?thesis by (auto simp: soleOffer_def)
    qed
  next
    case (RemoveAllSelections ok fsError)
    with assms(1) show ?thesis
      by (simp add: removeAllSelections_def db_removeAll_def soleOffer_def Let_def
          split: option.splits)
  next
    case (SetMonitoring v)
    with assms(1) show ?thesis by (simp add: setMonitoring_def soleOffer_def)
  next
    case (KeyResolved res)
    with assms(1) show ?thesis by (simp add: keyResolved_def soleOffer_def split: option.splits)
  qed
  then show "soleOffer r (perform lib op s)"
    and "r \<in> set (offerRows (database (perform lib op s))) \<Longrightarrow>
           r \<in> set (offerRows (database s))
           \<and> readFile (offer_id r) (m_dataDir (perform lib op s)) = readFile (offer_id r) (m_dataDir s)"
    by blast+
qed

lemma performAll_preserves_offer:
  assumes "soleOffer r s" and "\<forall>op\<in>set ops. \<not> usesOfferId (offer_id r) op"
  shows "soleOffer r (fold (perform lib) ops s)
     \<and> (r \<in> set (offerRows (database (fold (perform lib) ops s))) \<longrightarrow>
           r \<in> set (offerRows (database s))
           \<and> readFile (offer_id r) (m_dataDir (fold (perform lib) ops s)) = readFile (offer_id r) (m_dataDir s))"
  using assms
proof (induction ops arbitrary: s)
  case Nil
  then show ?case by simp
next
  case (Cons op ops)
  from Cons.prems have op: "\<not> usesOfferId (offer_id r) op"
    and rest: "\<forall>op\<in>set ops. \<not> usesOfferId (offer_id r) op" by simp_all
  note step = perform_preserves_offer[OF Cons.prems(1) op, of lib]
  from Cons.IH[OF step(1) rest] step(2) show ?case by auto
qed

section \<open>The capture pipeline\<close>

text \<open>
  Claim C7: the offers considered by \<^verbatim>\<open>saveSelection\<close> are the offers with bytes,
  deduplicated by mime type so that only the first offer of each type is kept. The code
  does not keep to it: \<^verbatim>\<open>std::ranges::unique\<close> compacts only neighbouring duplicates
  and the range it returns is never erased, so a second text/plain offer stays in the
  vector, next to the first or not.
\<close>

theorem filteredOffers_keeps_duplicate_mime_types:
  "filteredOffers
     \<lparr>offers = [\<lparr>mimeType = ''text/plain'', data = ''a''\<rparr>,
                \<lparr>mimeType = ''image/png'', data = ''b''\<rparr>,
                \<lparr>mimeType = ''text/plain'', data = ''c''\<rparr>], sourceApp = None\<rparr>
     = [\<lparr>mimeType = ''text/plain'', data = ''a''\<rparr>,
        \<lparr>mimeType = ''image/png'', data = ''b''\<rparr>,
        \<lparr>mimeType = ''text/plain'', data = ''c''\<rparr>]
   \<and> filteredOffers
     \<lparr>offers = [\<lparr>mimeType = ''text/plain'', data = ''a''\<rparr>,
                \<lparr>mimeType = ''text/plain'', data = ''c''\<rparr>], sourceApp = None\<rparr>
     = [\<lparr>mimeType = ''text/plain'', data = ''a''\<rparr>,
        \<lparr>mimeType = ''text/plain'', data = ''c''\<rparr>]"
  by (simp add: filteredOffers_def ranges_unique_def)

text \<open>
  Claim C8: for every raw selection in which an offer carries the concealed mime type,
  \<^verbatim>\<open>saveSelection\<close> discards the whole selection and leaves the store unchanged. The
  code does not keep to it where the marked offer has no bytes: \<^verbatim>\<open>erase_if\<close> removes
  that offer before the marker is looked for, and the selection is handled as if the
  marker had never been there.
\<close>

theorem concealed_marker_without_bytes_ignored:
  "saveSelection lib oc s
     \<lparr>offers = before @ \<lparr>mimeType = CONCEALED_MIME_TYPE lib, data = []\<rparr> # after,
      sourceApp = src\<rparr>
   = saveSelection lib oc s \<lparr>offers = before @ after, sourceApp = src\<rparr>"
proof -
  have "filteredOffers
      \<lparr>offers = before @ \<lparr>mimeType = CONCEALED_MIME_TYPE lib, data = []\<rparr> # after,
       sourceApp = src\<rparr>
    = filteredOffers \<lparr>offers = before @ after, sourceApp = src\<rparr>"
    by (simp add: filteredOffers_def)
  then show ?thesis by (simp add: saveSelection_def split: option.splits)
qed

theorem concealed_marker_without_bytes_ignored_witness:
  "m_dataDir (saveSelection sampleLibrary sampleOutcome sampleService
     \<lparr>offers = [\<lparr>mimeType = ''text/plain'', data = ''secret''\<rparr>,
                \<lparr>mimeType = CONCEALED_MIME_TYPE sampleLibrary, data = []\<rparr>],
      sourceApp = None\<rparr>) = [(''offer-1'', ''secret'')]
   \<and> map (\<lambda>row. sel_id (fst row)) (selectionRows (database
        (saveSelection sampleLibrary sampleOutcome sampleService
     \<lparr>offers = [\<lparr>mimeType = ''text/plain'', data = ''secret''\<rparr>,
                \<lparr>mimeType = CONCEALED_MIME_TYPE sampleLibrary, data = []\<rparr>],
      sourceApp = None\<rparr>))) = [''sel-1'']
   \<and> searchIndex (database
        (saveSelection sampleLibrary sampleOutcome sampleService
     \<lparr>offers = [\<lparr>mimeType = ''text/plain'', data = ''secret''\<rparr>,
                \<lparr>mimeType = CONCEALED_MIME_TYPE sampleLibrary, data = []\<rparr>],
      sourceApp = None\<rparr>)) = [(''sel-1'', ''secret'')]"
proof -
  have plain: "saveSelection sampleLibrary sampleOutcome sampleService
      \<lparr>offers = [\<lparr>mimeType = ''text/plain'', data = ''secret''\<rparr>] @ [], sourceApp = None\<rparr>
    = \<lparr>m_monitoring = True, m_isEncryptionReady = True, m_localEncryptionKey = None,
      database =
        \<lparr>selectionRows =
           [(\<lparr>sel_id = ''sel-1'', offerCount = 1, hash = ''secret'',
              preferredMimeType = ''text/plain'', kind = Text, source = None\<rparr>, 1)],
         offerRows =
           [\<lparr>offer_id = ''offer-1'', selectionId = ''sel-1'', offer_mimeType = ''text/plain'',
             textPreview = ''secret'', md5sum = ''secret'', encryption = None_Encryption,
             offer_size = 6, urlHost = None\<rparr>],
         searchIndex = [(''sel-1'', ''secret'')]\<rparr>,
      m_dataDir = [(''offer-1'', ''secret'')],
      emitted =
        [itemInserted \<lparr>entry_id = ''sel-1'', pinnedAt = 0, updatedAt = 0,
           entry_mimeType = ''text/plain'', entry_md5sum = ''secret'',
           entry_textPreview = ''secret''\<rparr>]\<rparr>"
    by (simp add: save_defs sample_defs)
  have "saveSelection sampleLibrary sampleOutcome sampleService
     \<lparr>offers = [\<lparr>mimeType = ''text/plain'', data = ''secret''\<rparr>,
                \<lparr>mimeType = CONCEALED_MIME_TYPE sampleLibrary, data = []\<rparr>],
      sourceApp = None\<rparr>
    = saveSelection sampleLibrary sampleOutcome sampleService
      \<lparr>offers = [\<lparr>mimeType = ''text/plain'', data = ''secret''\<rparr>] @ [], sourceApp = None\<rparr>"
    using concealed_marker_without_bytes_ignored[of sampleLibrary sampleOutcome sampleService
        "[\<lparr>mimeType = ''text/plain'', data = ''secret''\<rparr>]" "[]" None]
    by simp
  then show ?thesis unfolding plain by simp
qed

text \<open>
  The sibling path: a marked offer that has bytes makes \<^verbatim>\<open>saveSelection\<close> discard the
  whole selection, with the database, the blob files and the signals left as they were.
\<close>

lemma concealed_selection_discarded:
  assumes "\<exists>offer\<in>set (offers selection).
             mimeType offer = CONCEALED_MIME_TYPE lib \<and> data offer \<noteq> []"
  shows "saveSelection lib oc s selection = s"
proof -
  from assms have "list_ex (\<lambda>offer. mimeType offer = CONCEALED_MIME_TYPE lib)
      (filteredOffers selection)"
    by (auto simp: list_ex_iff set_filteredOffers)
  then show ?thesis by (simp add: saveSelection_def)
qed

text \<open>
  Claim C3: the representative offer is chosen by the strict priority text/plain, then
  any image (the first seen), then text/html turned into plain text; where none of them
  is offered the selection is skipped and nothing is stored; what is stored on the
  insert branch is that representative. For the offers text/plain ``foo'' and image/png
  the representative is text/plain ``foo'', of kind Text.
\<close>

theorem representative_by_priority:
  "representativeOffer lib os = specRepresentative lib os
   \<and> (specRepresentative lib (filteredOffers selection) = None \<longrightarrow>
        saveSelection lib oc s selection = s)
   \<and> (passesFilters lib s selection
        \<and> specRepresentative lib (filteredOffers selection) = Some (m, d)
        \<and> \<not> hashStored (md5Hex lib d) s
        \<and> insertSelectionOk oc \<and> indexOk oc \<and> insertOfferOk oc \<and> openOk oc \<longrightarrow>
        (\<exists>row. offerRows (database (saveSelection lib oc s selection))
                  = offerRows (database s) @ [row] \<and> offer_mimeType row = m)
        \<and> m_dataDir (saveSelection lib oc s selection)
            = writeFile (uuidOffer oc)
                (case m_localEncryptionKey s of Some k \<Rightarrow> encrypt lib d k | None \<Rightarrow> d)
                (m_dataDir s))
   \<and> representativeOffer lib (filteredOffers
        \<lparr>offers = [\<lparr>mimeType = ''text/plain'', data = ''foo''\<rparr>,
                   \<lparr>mimeType = ''image/png'', data = bytes\<rparr>], sourceApp = src\<rparr>)
       = Some (''text/plain'', ''foo'')
   \<and> (scheme (fromEncoded lib ''foo'') = [] \<longrightarrow>
        getKind lib \<lparr>mimeType = ''text/plain'', data = ''foo''\<rparr> = Text)"
proof (intro conjI impI)
  show "representativeOffer lib os = specRepresentative lib os"
    by (rule representativeOffer_refines)
next
  assume "specRepresentative lib (filteredOffers selection) = None"
  then show "saveSelection lib oc s selection = s"
    by (simp add: saveSelection_no_representative representativeOffer_refines)
next
  assume a: "passesFilters lib s selection
        \<and> specRepresentative lib (filteredOffers selection) = Some (m, d)
        \<and> \<not> hashStored (md5Hex lib d) s
        \<and> insertSelectionOk oc \<and> indexOk oc \<and> insertOfferOk oc \<and> openOk oc"
  then have rep: "representativeOffer lib (filteredOffers selection) = Some (m, d)"
    by (simp add: representativeOffer_refines)
  from a saveSelection_inserted(4)[OF _ rep, where oc=oc]
  show "\<exists>row. offerRows (database (saveSelection lib oc s selection))
                  = offerRows (database s) @ [row] \<and> offer_mimeType row = m"
    by blast
  from a saveSelection_inserted(2)[OF _ rep, where oc=oc]
  show "m_dataDir (saveSelection lib oc s selection)
            = writeFile (uuidOffer oc)
                (case m_localEncryptionKey s of Some k \<Rightarrow> encrypt lib d k | None \<Rightarrow> d)
                (m_dataDir s)"
    by blast
next
  show "representativeOffer lib (filteredOffers
        \<lparr>offers = [\<lparr>mimeType = ''text/plain'', data = ''foo''\<rparr>,
                   \<lparr>mimeType = ''image/png'', data = bytes\<rparr>], sourceApp = src\<rparr>)
       = Some (''text/plain'', ''foo'')"
    by (rule example_representative)
next
  assume "scheme (fromEncoded lib ''foo'') = []"
  then show "getKind lib \<lparr>mimeType = ''text/plain'', data = ''foo''\<rparr> = Text"
    by (simp add: getKind_def startsWith_def)
qed

theorem representative_by_priority_witness:
  "representativeOffer sampleLibrary
      [\<lparr>mimeType = ''text/html'', data = ''<b>x</b>''\<rparr>,
       \<lparr>mimeType = ''image/gif'', data = ''g''\<rparr>,
       \<lparr>mimeType = ''image/png'', data = ''p''\<rparr>] = Some (''image/gif'', ''g'')
   \<and> saveSelection sampleLibrary sampleOutcome sampleService
        \<lparr>offers = [\<lparr>mimeType = ''application/pdf'', data = ''x''\<rparr>], sourceApp = None\<rparr>
       = sampleService
   \<and> m_dataDir (saveSelection sampleLibrary sampleOutcome sampleService
        \<lparr>offers = [\<lparr>mimeType = ''text/plain'', data = ''foo''\<rparr>,
                   \<lparr>mimeType = ''image/png'', data = ''p''\<rparr>], sourceApp = None\<rparr>)
       = [(''offer-1'', ''foo'')]
   \<and> getKind sampleLibrary \<lparr>mimeType = ''text/plain'', data = ''foo''\<rparr> = Text"
proof -
  let ?os = "[\<lparr>mimeType = ''text/html'', data = ''<b>x</b>''\<rparr>,
       \<lparr>mimeType = ''image/gif'', data = ''g''\<rparr>,
       \<lparr>mimeType = ''image/png'', data = ''p''\<rparr>]"
  let ?pdf = "\<lparr>offers = [\<lparr>mimeType = ''application/pdf'', data = ''x''\<rparr>], sourceApp = None\<rparr>"
  let ?foo = "\<lparr>offers = [\<lparr>mimeType = ''text/plain'', data = ''foo''\<rparr>,
                   \<lparr>mimeType = ''image/png'', data = ''p''\<rparr>], sourceApp = None\<rparr>"
  note inst = representative_by_priority[of sampleLibrary]
  have 1: "specRepresentative sampleLibrary ?os = Some (''image/gif'', ''g'')"
    by (simp add: specRepresentative_def representativeRank_def startsWith_def)
  have 2: "specRepresentative sampleLibrary (filteredOffers ?pdf) = None"
    by (simp add: specRepresentative_def representativeRank_def startsWith_def
        filteredOffers_def ranges_unique_def)
  have 3: "passesFilters sampleLibrary sampleService ?foo
        \<and> specRepresentative sampleLibrary (filteredOffers ?foo) = Some (''text/plain'', ''foo'')
        \<and> \<not> hashStored (md5Hex sampleLibrary ''foo'') sampleService
        \<and> insertSelectionOk sampleOutcome \<and> indexOk sampleOutcome
        \<and> insertOfferOk sampleOutcome \<and> openOk sampleOutcome"
    by (simp add: specRepresentative_def representativeRank_def startsWith_def
        filteredOffers_def ranges_unique_def passesFilters_def isClearSelection_def
        hashStored_def sample_defs)
  have 4: "scheme (fromEncoded sampleLibrary ''foo'') = []"
    by (simp add: sampleLibrary_def)
  from inst[of ?os] 1 have c1: "representativeOffer sampleLibrary ?os = Some (''image/gif'', ''g'')"
    by simp
  from inst[of _ ?pdf sampleOutcome sampleService] 2
  have c2: "saveSelection sampleLibrary sampleOutcome sampleService ?pdf = sampleService"
    by blast
  from inst[of _ ?foo sampleOutcome sampleService "''text/plain''" "''foo''"] 3
  have "m_dataDir (saveSelection sampleLibrary sampleOutcome sampleService ?foo)
        = writeFile (uuidOffer sampleOutcome)
                (case m_localEncryptionKey sampleService of
                   Some k \<Rightarrow> encrypt sampleLibrary ''foo'' k | None \<Rightarrow> ''foo'')
                (m_dataDir sampleService)"
    by blast
  then have c3: "m_dataDir (saveSelection sampleLibrary sampleOutcome sampleService ?foo)
       = [(''offer-1'', ''foo'')]"
    by (simp add: writeFile_def sampleService_def sampleOutcome_def)
  from inst 4 have c4: "getKind sampleLibrary \<lparr>mimeType = ''text/plain'', data = ''foo''\<rparr> = Text"
    by blast
  from c1 c2 c3 c4 show ?thesis by blast
qed

text \<open>
  Claim C1: on the insert branch of \<^verbatim>\<open>saveSelection\<close> the selection row, the index
  entry, the offer row and the blob file are created together or not at all; a failing
  step aborts the transaction and leaves nothing behind. The code does not keep to it
  where the step that fails is the insertion of the offer row: the result of
  \<^verbatim>\<open>insertOffer\<close> is dropped, the blob is written and the transaction commits, so the
  selection row and the blob exist without an offer row.
\<close>

theorem offer_row_failure_not_rolled_back:
  assumes "passesFilters lib s selection"
    and "representativeOffer lib (filteredOffers selection) = Some (m, d)"
    and "\<not> hashStored (md5Hex lib d) s"
    and "insertSelectionOk oc" and "indexOk oc" and "\<not> insertOfferOk oc" and "openOk oc"
  shows "map (\<lambda>row. sel_id (fst row)) (selectionRows (database (saveSelection lib oc s selection)))
           = map (\<lambda>row. sel_id (fst row)) (selectionRows (database s)) @ [uuidSelection oc]
       \<and> offerRows (database (saveSelection lib oc s selection)) = offerRows (database s)
       \<and> readFile (uuidOffer oc) (m_dataDir (saveSelection lib oc s selection))
           = Some (case m_localEncryptionKey s of Some k \<Rightarrow> encrypt lib d k | None \<Rightarrow> d)"
  using saveSelection_inserted(1,2,3)[OF assms(1,2,3,4,5,7)] assms(6)
  by (simp add: readFile_writeFile)

theorem offer_row_failure_not_rolled_back_witness:
  "map (\<lambda>row. sel_id (fst row)) (selectionRows (database
        (saveSelection sampleLibrary (sampleOutcome\<lparr>insertOfferOk := False\<rparr>) sampleService
           \<lparr>offers = [\<lparr>mimeType = ''text/plain'', data = ''foo''\<rparr>], sourceApp = None\<rparr>)))
     = [''sel-1'']
   \<and> offerRows (database
        (saveSelection sampleLibrary (sampleOutcome\<lparr>insertOfferOk := False\<rparr>) sampleService
           \<lparr>offers = [\<lparr>mimeType = ''text/plain'', data = ''foo''\<rparr>], sourceApp = None\<rparr>)) = []
   \<and> readFile ''offer-1'' (m_dataDir
        (saveSelection sampleLibrary (sampleOutcome\<lparr>insertOfferOk := False\<rparr>) sampleService
           \<lparr>offers = [\<lparr>mimeType = ''text/plain'', data = ''foo''\<rparr>], sourceApp = None\<rparr>))
     = Some ''foo''"
  using offer_row_failure_not_rolled_back[of sampleLibrary sampleService
      "\<lparr>offers = [\<lparr>mimeType = ''text/plain'', data = ''foo''\<rparr>], sourceApp = None\<rparr>"
      "''text/plain''" "''foo''" "sampleOutcome\<lparr>insertOfferOk := False\<rparr>"]
  by (simp add: passesFilters_def hashStored_def filteredOffers_def ranges_unique_def
      isClearSelection_def representativeOffer_def sample_defs)

text \<open>
  Claim C2: persisting the same representative payload twice yields exactly one stored
  selection. The second call finds the selection by its content hash and only refreshes
  its time of last use; it writes no row, no index entry and no blob file.
\<close>

theorem duplicate_capture_bubbles_up:
  assumes "passesFilters lib s first" and "passesFilters lib s second"
    and "representativeOffer lib (filteredOffers first) = Some (m1, d)"
    and "representativeOffer lib (filteredOffers second) = Some (m2, d)"
    and "\<not> hashStored (md5Hex lib d) s"
    and "insertSelectionOk oc1" and "indexOk oc1" and "openOk oc1"
  shows "length (filter (\<lambda>row. hash (fst row) = md5Hex lib d)
           (selectionRows (database
              (saveSelection lib oc2 (saveSelection lib oc1 s first) second)))) = 1
       \<and> selectionRows (database (saveSelection lib oc2 (saveSelection lib oc1 s first) second))
           = map (\<lambda>row. if hash (fst row) = md5Hex lib d then (fst row, now oc2) else row)
               (selectionRows (database (saveSelection lib oc1 s first)))
       \<and> offerRows (database (saveSelection lib oc2 (saveSelection lib oc1 s first) second))
           = offerRows (database (saveSelection lib oc1 s first))
       \<and> searchIndex (database (saveSelection lib oc2 (saveSelection lib oc1 s first) second))
           = searchIndex (database (saveSelection lib oc1 s first))
       \<and> m_dataDir (saveSelection lib oc2 (saveSelection lib oc1 s first) second)
           = m_dataDir (saveSelection lib oc1 s first)"
proof -
  let ?h = "md5Hex lib d"
  let ?s1 = "saveSelection lib oc1 s first"
  let ?s2 = "saveSelection lib oc2 ?s1 second"
  from saveSelection_selection_row[OF assms(1,3,5,6,7,8)] obtain payload where
    rows1: "selectionRows (database ?s1) = selectionRows (database s) @ [(payload, now oc1)]"
    and h: "hash payload = ?h"
    by blast
  have stored: "hashStored ?h ?s1"
    using rows1 h by (simp add: hashStored_def)
  have pf: "passesFilters lib ?s1 second"
    using assms(2) by (simp add: passesFilters_saveSelection)
  have s2: "?s2 = ?s1\<lparr>database := snd (tryBubbleUpSelection (now oc2) ?h (database ?s1)),
             m_dataDir := m_dataDir ?s1,
             emitted := emitted ?s1 @ [itemInserted defaultEntry]\<rparr>"
    by (rule saveSelection_bubble[OF pf assms(4) stored])
  have rows2: "selectionRows (database ?s2)
      = map (\<lambda>row. if hash (fst row) = ?h then (fst row, now oc2) else row)
          (selectionRows (database ?s1))"
    using stored by (simp add: s2 tryBubbleUpSelection_def hashStored_def)
  have none: "filter (\<lambda>row. hash (fst row) = ?h) (selectionRows (database s)) = []"
    using assms(5) by (auto simp: hashStored_def list_ex_iff filter_empty_conv)
  have cnt: "length (filter (\<lambda>row. hash (fst row) = ?h) (map (\<lambda>row. if hash (fst row) = ?h then (fst row, t) else row) rows))
      = length (filter (\<lambda>row. hash (fst row) = ?h) rows)" for t and rows :: "(InsertSelectionPayload \<times> nat) list"
    by (induction rows) auto
  have "length (filter (\<lambda>row. hash (fst row) = ?h) (selectionRows (database ?s2))) = 1"
    unfolding rows2 cnt using rows1 h none by simp
  moreover have "offerRows (database ?s2) = offerRows (database ?s1)"
    "searchIndex (database ?s2) = searchIndex (database ?s1)"
    "m_dataDir ?s2 = m_dataDir ?s1"
    using stored by (simp_all add: s2 tryBubbleUpSelection_def hashStored_def)
  ultimately show ?thesis using rows2 by blast
qed

theorem duplicate_capture_bubbles_up_witness:
  "length (filter (\<lambda>row. hash (fst row) = ''foo'')
     (selectionRows (database
        (saveSelection sampleLibrary secondOutcome
           (saveSelection sampleLibrary sampleOutcome sampleService fooSelection)
           fooSelection)))) = 1
   \<and> m_dataDir (saveSelection sampleLibrary secondOutcome
           (saveSelection sampleLibrary sampleOutcome sampleService fooSelection)
           fooSelection) = [(''offer-1'', ''foo'')]"
proof -
  note dup = duplicate_capture_bubbles_up[OF foo_passes foo_passes foo_representative
      foo_representative foo_not_stored sampleOutcome_ok(1,2,4), of secondOutcome]
  have "md5Hex sampleLibrary ''foo'' = ''foo''" by (simp add: sampleLibrary_def)
  with dup show ?thesis by (simp add: foo_saved)
qed

text \<open>
  Claim C4: \<^verbatim>\<open>itemInserted\<close> is emitted if and only if a new selection was stored; the
  bubble-up path and a failed transaction emit nothing. The code does not keep to it:
  the signal is emitted after the transaction whatever its result, so a capture whose
  hash is already stored, or whose selection row cannot be inserted, emits
  \<^verbatim>\<open>itemInserted\<close> with a default-constructed entry while no selection is added.
\<close>

theorem itemInserted_emitted_without_insertion:
  assumes "passesFilters lib s selection"
    and "representativeOffer lib (filteredOffers selection) = Some (m, d)"
    and "hashStored (md5Hex lib d) s \<or> \<not> insertSelectionOk oc"
  shows "emitted (saveSelection lib oc s selection) = emitted s @ [itemInserted defaultEntry]
       \<and> map fst (selectionRows (database (saveSelection lib oc s selection)))
           = map fst (selectionRows (database s))
       \<and> offerRows (database (saveSelection lib oc s selection)) = offerRows (database s)
       \<and> m_dataDir (saveSelection lib oc s selection) = m_dataDir s"
proof (cases "hashStored (md5Hex lib d) s")
  case True
  have "map fst (map (\<lambda>row. if hash (fst row) = h then (fst row, t) else row) rows) = map fst rows"
    for h t and rows :: "(InsertSelectionPayload \<times> nat) list"
    by (induction rows) auto
  then show ?thesis
    by (simp add: saveSelection_bubble[OF assms(1,2) True] tryBubbleUpSelection_def)
next
  case False
  with assms(3) have "\<not> insertSelectionOk oc" by simp
  from saveSelection_insert_failed[OF assms(1,2) False this] show ?thesis by simp
qed

theorem itemInserted_emitted_without_insertion_witness:
  "emitted (saveSelection sampleLibrary sampleOutcome
      (saveSelection sampleLibrary sampleOutcome sampleService
         \<lparr>offers = [\<lparr>mimeType = ''text/plain'', data = ''foo''\<rparr>], sourceApp = None\<rparr>)
      \<lparr>offers = [\<lparr>mimeType = ''text/plain'', data = ''foo''\<rparr>], sourceApp = None\<rparr>)
   = emitted (saveSelection sampleLibrary sampleOutcome sampleService
         \<lparr>offers = [\<lparr>mimeType = ''text/plain'', data = ''foo''\<rparr>], sourceApp = None\<rparr>)
       @ [itemInserted defaultEntry]"
proof -
  let ?sel = "\<lparr>offers = [\<lparr>mimeType = ''text/plain'', data = ''foo''\<rparr>], sourceApp = None\<rparr>"
  let ?s1 = "saveSelection sampleLibrary sampleOutcome sampleService ?sel"
  have rep: "representativeOffer sampleLibrary (filteredOffers ?sel) = Some (''text/plain'', ''foo'')"
    by (simp add: filteredOffers_def ranges_unique_def representativeOffer_def)
  have s1: "passesFilters sampleLibrary ?s1 ?sel"
    by (simp add: passesFilters_saveSelection)
      (simp add: passesFilters_def filteredOffers_def ranges_unique_def
        isClearSelection_def sample_defs)
  have stored: "hashStored (md5Hex sampleLibrary ''foo'') ?s1"
    by (simp add: hashStored_def save_defs sample_defs)
  then have "hashStored (md5Hex sampleLibrary ''foo'') ?s1 \<or> \<not> insertSelectionOk sampleOutcome" ..
  from itemInserted_emitted_without_insertion[OF s1 rep this] show ?thesis by simp
qed

text \<open>
  Claim C9, as the specification states it, fails: while the key lookup has not finished
  no key is there, and a capture is dropped, not stored unencrypted.
\<close>

theorem capture_before_key_resolution_counterexample:
  "m_localEncryptionKey (sampleService\<lparr>m_isEncryptionReady := False\<rparr>) = None
   \<and> m_monitoring (sampleService\<lparr>m_isEncryptionReady := False\<rparr>)
   \<and> saveSelection sampleLibrary sampleOutcome (sampleService\<lparr>m_isEncryptionReady := False\<rparr>)
        \<lparr>offers = [\<lparr>mimeType = ''text/plain'', data = ''foo''\<rparr>], sourceApp = None\<rparr>
      = sampleService\<lparr>m_isEncryptionReady := False\<rparr>"
  by (simp add: saveSelection_def sampleService_def)

text \<open>
  Claim C9, amended: once the key lookup has finished, a capture that is stored while no
  key is available has its blob written as the raw bytes and its offer marked None; one
  stored while a key is available has its blob encrypted and its offer marked Local.
  Whatever the service does later, a key becoming available included, the offer row keeps
  its marker and, as long as the row exists, the blob keeps its bytes.
\<close>

theorem encryption_marker_fixed_at_persist_time:
  assumes "passesFilters lib s selection"
    and "representativeOffer lib (filteredOffers selection) = Some (m, d)"
    and "\<not> hashStored (md5Hex lib d) s"
    and "insertSelectionOk oc" and "indexOk oc" and "insertOfferOk oc" and "openOk oc"
    and "uuidOffer oc \<notin> offer_id ` set (offerRows (database s))"
    and "\<forall>op\<in>set later. \<not> usesOfferId (uuidOffer oc) op"
  shows "\<exists>row. offerRows (database (saveSelection lib oc s selection))
                 = offerRows (database s) @ [row]
      \<and> offer_id row = uuidOffer oc
      \<and> encryption row
          = (case m_localEncryptionKey s of None \<Rightarrow> None_Encryption | Some k \<Rightarrow> Local)
      \<and> readFile (uuidOffer oc) (m_dataDir (saveSelection lib oc s selection))
          = Some (case m_localEncryptionKey s of None \<Rightarrow> d | Some k \<Rightarrow> encrypt lib d k)
      \<and> (\<forall>r\<in>set (offerRows (database
              (fold (perform lib) later (saveSelection lib oc s selection)))).
            offer_id r = uuidOffer oc \<longrightarrow> r = row)
      \<and> (row \<in> set (offerRows (database
              (fold (perform lib) later (saveSelection lib oc s selection)))) \<longrightarrow>
            readFile (uuidOffer oc)
              (m_dataDir (fold (perform lib) later (saveSelection lib oc s selection)))
            = Some (case m_localEncryptionKey s of None \<Rightarrow> d | Some k \<Rightarrow> encrypt lib d k))"
proof -
  let ?s1 = "saveSelection lib oc s selection"
  let ?blob = "case m_localEncryptionKey s of None \<Rightarrow> d | Some k \<Rightarrow> encrypt lib d k"
  from saveSelection_inserted(4)[OF assms(1,2,3,4,5,7,6)] obtain row where
    rows: "offerRows (database ?s1) = offerRows (database s) @ [row]"
    and rid: "offer_id row = uuidOffer oc"
    and enc: "encryption row = (if m_localEncryptionKey s = None then None_Encryption else Local)"
    by blast
  have enc': "encryption row
      = (case m_localEncryptionKey s of None \<Rightarrow> None_Encryption | Some k \<Rightarrow> Local)"
    using enc by (simp split: option.splits)
  have blob: "readFile (uuidOffer oc) (m_dataDir ?s1) = Some ?blob"
    using saveSelection_inserted(2)[OF assms(1,2,3,4,5,7)]
    by (simp add: readFile_writeFile split: option.splits)
  have sole: "soleOffer row ?s1"
    using rows rid assms(8) by (force simp: soleOffer_def)
  from assms(9) rid have "\<forall>op\<in>set later. \<not> usesOfferId (offer_id row) op" by simp
  note inv = performAll_preserves_offer[OF sole this, of lib]
  from inv have "soleOffer row (fold (perform lib) later ?s1)" by (rule conjunct1)
  then have a: "\<forall>r\<in>set (offerRows (database (fold (perform lib) later ?s1))).
            offer_id r = uuidOffer oc \<longrightarrow> r = row"
    unfolding soleOffer_def rid .
  from inv have "row \<in> set (offerRows (database (fold (perform lib) later ?s1))) \<longrightarrow>
      readFile (offer_id row) (m_dataDir (fold (perform lib) later ?s1))
        = readFile (offer_id row) (m_dataDir ?s1)"
    by blast
  then have b: "row \<in> set (offerRows (database (fold (perform lib) later ?s1))) \<longrightarrow>
            readFile (uuidOffer oc) (m_dataDir (fold (perform lib) later ?s1)) = Some ?blob"
    unfolding rid blob .
  note a b
  with rows rid enc' blob show ?thesis by blast
qed

theorem encryption_marker_fixed_at_persist_time_witness:
  "readFile ''offer-1'' (m_dataDir
       (fold (perform sampleLibrary)
          [KeyResolved (Some ''k''), SaveSelection secondOutcome barSelection]
          (saveSelection sampleLibrary sampleOutcome sampleService fooSelection))) = Some ''foo''
   \<and> map (\<lambda>r. (offer_id r, encryption r)) (offerRows (database
       (fold (perform sampleLibrary)
          [KeyResolved (Some ''k''), SaveSelection secondOutcome barSelection]
          (saveSelection sampleLibrary sampleOutcome sampleService fooSelection))))
       = [(''offer-1'', None_Encryption), (''offer-2'', Local)]
   \<and> readFile ''offer-2'' (m_dataDir
       (fold (perform sampleLibrary)
          [KeyResolved (Some ''k''), SaveSelection secondOutcome barSelection]
          (saveSelection sampleLibrary sampleOutcome sampleService fooSelection))) = Some ''kbar''"
proof -
  let ?later = "[KeyResolved (Some ''k''), SaveSelection secondOutcome barSelection]"
  define s1 where "s1 = saveSelection sampleLibrary sampleOutcome sampleService fooSelection"
  define s2 where "s2 = saveSelection sampleLibrary secondOutcome (keyResolved (Some ''k'') s1)
      barSelection"
  have fold_eq: "fold (perform sampleLibrary) ?later s1 = s2"
    by (simp add: s2_def)
  have fresh: "uuidOffer sampleOutcome \<notin> offer_id ` set (offerRows (database sampleService))"
    by (simp add: sampleService_def)
  have later: "\<forall>op\<in>set ?later. \<not> usesOfferId (uuidOffer sampleOutcome) op"
    by (simp add: sampleOutcome_def secondOutcome_def)
  from encryption_marker_fixed_at_persist_time[OF foo_passes foo_representative foo_not_stored
      sampleOutcome_ok(1,2,3,4) fresh later]
  obtain row where
    rows: "offerRows (database s1) = offerRows (database sampleService) @ [row]"
    and keep: "row \<in> set (offerRows (database s2)) \<longrightarrow>
            readFile (uuidOffer sampleOutcome) (m_dataDir s2)
            = Some (case m_localEncryptionKey sampleService of
                      None \<Rightarrow> ''foo'' | Some k \<Rightarrow> encrypt sampleLibrary ''foo'' k)"
    unfolding s1_def[symmetric] fold_eq by blast
  have s1: "s1 =
     \<lparr>m_monitoring = True, m_isEncryptionReady = True, m_localEncryptionKey = None,
      database =
        \<lparr>selectionRows =
           [(\<lparr>sel_id = ''sel-1'', offerCount = 1, hash = ''foo'',
              preferredMimeType = ''text/plain'', kind = Text, source = None\<rparr>, 1)],
         offerRows =
           [\<lparr>offer_id = ''offer-1'', selectionId = ''sel-1'', offer_mimeType = ''text/plain'',
             textPreview = ''foo'', md5sum = ''foo'', encryption = None_Encryption,
             offer_size = 3, urlHost = None\<rparr>],
         searchIndex = [(''sel-1'', ''foo'')]\<rparr>,
      m_dataDir = [(''offer-1'', ''foo'')],
      emitted =
        [itemInserted \<lparr>entry_id = ''sel-1'', pinnedAt = 0, updatedAt = 0,
           entry_mimeType = ''text/plain'', entry_md5sum = ''foo'',
           entry_textPreview = ''foo''\<rparr>]\<rparr>"
    unfolding s1_def by (rule foo_saved)
  have rows2: "offerRows (database s2) =
           [\<lparr>offer_id = ''offer-1'', selectionId = ''sel-1'', offer_mimeType = ''text/plain'',
             textPreview = ''foo'', md5sum = ''foo'', encryption = None_Encryption,
             offer_size = 3, urlHost = None\<rparr>,
            \<lparr>offer_id = ''offer-2'', selectionId = ''sel-2'', offer_mimeType = ''text/plain'',
             textPreview = ''bar'', md5sum = ''bar'', encryption = Local,
             offer_size = 3, urlHost = None\<rparr>]"
    and files2: "m_dataDir s2 = [(''offer-1'', ''foo''), (''offer-2'', ''kbar'')]"
    unfolding s2_def s1
    by (simp_all add: keyResolved_def save_defs sampleLibrary_def sampleOutcome_def
        secondOutcome_def barSelection_def)
  from rows have "row = \<lparr>offer_id = ''offer-1'', selectionId = ''sel-1'',
             offer_mimeType = ''text/plain'',
             textPreview = ''foo'', md5sum = ''foo'', encryption = None_Encryption,
             offer_size = 3, urlHost = None\<rparr>"
    by (simp add: s1 sampleService_def)
  with keep have "readFile ''offer-1'' (m_dataDir s2) = Some ''foo''"
    by (simp add: rows2 sampleOutcome_def sampleService_def)
  moreover have "readFile ''offer-2'' (m_dataDir s2) = Some ''kbar''"
    by (simp add: files2 readFile_def)
  ultimately show ?thesis
    unfolding s1_def[symmetric] fold_eq by (simp add: rows2)
qed

text \<open>
  Where no removal of a blob file fails, \<^verbatim>\<open>removeSelection\<close> returns true, emits
  \<^verbatim>\<open>selectionRemoved\<close> and has deleted exactly the blob files whose offer identifiers
  the database reports as removed. When no selection has the identifier no file is
  removed, so the call returns true and emits whatever the file system does, and the
  database and the blob files are unchanged.
\<close>

lemma removeSelection_succeeds_unless_removal_fails:
  "((\<forall>name\<in>set (fst (db_removeSelection sid (database s))). \<not> removeFails name) \<longrightarrow>
      fst (removeSelection removeFails s sid) = Inr True
      \<and> emitted (snd (removeSelection removeFails s sid)) = emitted s @ [selectionRemoved sid]
      \<and> database (snd (removeSelection removeFails s sid))
          = snd (db_removeSelection sid (database s))
      \<and> m_dataDir (snd (removeSelection removeFails s sid))
          = filter (\<lambda>f. fst f \<notin> set (fst (db_removeSelection sid (database s)))) (m_dataDir s))
   \<and> (\<not> list_ex (\<lambda>row. sel_id (fst row) = sid) (selectionRows (database s)) \<longrightarrow>
      fst (removeSelection removeFails s sid) = Inr True
      \<and> emitted (snd (removeSelection removeFails s sid)) = emitted s @ [selectionRemoved sid]
      \<and> database (snd (removeSelection removeFails s sid)) = database s
      \<and> m_dataDir (snd (removeSelection removeFails s sid)) = m_dataDir s)"
proof (intro conjI impI)
  assume ok: "\<forall>name\<in>set (fst (db_removeSelection sid (database s))). \<not> removeFails name"
  have blobs: "removeBlobs removeFails (fst (db_removeSelection sid (database s))) (m_dataDir s)
      = (Inr (), filter (\<lambda>f. fst f \<notin> set (fst (db_removeSelection sid (database s))))
                   (m_dataDir s))"
    using removeBlobs_no_failure[OF ok] by (simp add: fold_removeFile)
  show "fst (removeSelection removeFails s sid) = Inr True"
    and "emitted (snd (removeSelection removeFails s sid)) = emitted s @ [selectionRemoved sid]"
    and "database (snd (removeSelection removeFails s sid))
          = snd (db_removeSelection sid (database s))"
    and "m_dataDir (snd (removeSelection removeFails s sid))
          = filter (\<lambda>f. fst f \<notin> set (fst (db_removeSelection sid (database s)))) (m_dataDir s)"
    by (simp_all add: removeSelection_def Let_def blobs)
next
  assume "\<not> list_ex (\<lambda>row. sel_id (fst row) = sid) (selectionRows (database s))"
  then have none: "db_removeSelection sid (database s) = ([], database s)"
    by (simp add: db_removeSelection_def)
  show "fst (removeSelection removeFails s sid) = Inr True"
    and "emitted (snd (removeSelection removeFails s sid)) = emitted s @ [selectionRemoved sid]"
    and "database (snd (removeSelection removeFails s sid)) = database s"
    and "m_dataDir (snd (removeSelection removeFails s sid)) = m_dataDir s"
    by (simp_all add: removeSelection_def Let_def none)
qed

text \<open>
  Claim C10: \<^verbatim>\<open>removeSelection\<close> returns true and emits \<^verbatim>\<open>selectionRemoved\<close> for every
  identifier, also when no selection has it, and deletes exactly the blob files whose
  offer identifiers the database reports as removed. The code does not keep to it where
  the removal of one of these files fails: the result of \<^verbatim>\<open>fs::remove\<close> is not looked
  at, but this overload reports an error by throwing and nothing is caught, so the call
  ends with the rows deleted, no signal and no result.
\<close>

theorem removeSelection_throws_when_removal_fails:
  "(\<exists>name\<in>set (fst (db_removeSelection sid (database s))). removeFails name) \<longrightarrow>
      fst (removeSelection removeFails s sid) = Inl filesystem_error
      \<and> emitted (snd (removeSelection removeFails s sid)) = emitted s
      \<and> database (snd (removeSelection removeFails s sid))
          = snd (db_removeSelection sid (database s))"
proof
  assume "\<exists>name\<in>set (fst (db_removeSelection sid (database s))). removeFails name"
  from removeBlobs_failure[OF this, of "m_dataDir s"]
  show "fst (removeSelection removeFails s sid) = Inl filesystem_error
      \<and> emitted (snd (removeSelection removeFails s sid)) = emitted s
      \<and> database (snd (removeSelection removeFails s sid))
          = snd (db_removeSelection sid (database s))"
    by (simp add: removeSelection_def Let_def)
qed

theorem removeSelection_throws_when_removal_fails_witness:
  "fst (removeSelection (\<lambda>name. name = ''offer-1'')
         (saveSelection sampleLibrary sampleOutcome sampleService fooSelection) ''sel-1'')
     = Inl filesystem_error
   \<and> emitted (snd (removeSelection (\<lambda>name. name = ''offer-1'')
         (saveSelection sampleLibrary sampleOutcome sampleService fooSelection) ''sel-1''))
     = emitted (saveSelection sampleLibrary sampleOutcome sampleService fooSelection)
   \<and> selectionRows (database (snd (removeSelection (\<lambda>name. name = ''offer-1'')
         (saveSelection sampleLibrary sampleOutcome sampleService fooSelection) ''sel-1''))) = []
   \<and> offerRows (database (snd (removeSelection (\<lambda>name. name = ''offer-1'')
         (saveSelection sampleLibrary sampleOutcome sampleService fooSelection) ''sel-1''))) = []"
proof -
  define s1 where "s1 = saveSelection sampleLibrary sampleOutcome sampleService fooSelection"
  have removed: "db_removeSelection ''sel-1'' (database s1)
      = ([''offer-1''], \<lparr>selectionRows = [], offerRows = [], searchIndex = []\<rparr>)"
    unfolding s1_def foo_saved by (simp add: db_removeSelection_def)
  then have "\<exists>name\<in>set (fst (db_removeSelection ''sel-1'' (database s1))).
      (\<lambda>name. name = ''offer-1'') name"
    by simp
  with removeSelection_throws_when_removal_fails
      [of "''sel-1''" s1 "\<lambda>name. name = ''offer-1''"]
  have "fst (removeSelection (\<lambda>name. name = ''offer-1'') s1 ''sel-1'') = Inl filesystem_error
      \<and> emitted (snd (removeSelection (\<lambda>name. name = ''offer-1'') s1 ''sel-1'')) = emitted s1
      \<and> database (snd (removeSelection (\<lambda>name. name = ''offer-1'') s1 ''sel-1''))
          = snd (db_removeSelection ''sel-1'' (database s1))"
    by blast
  then show ?thesis unfolding s1_def[symmetric] by (simp add: removed)
qed

end
